theory Spec2Isabelle
  imports Main "HOL-Library.Sublist"
begin

section \<open>Python strings\<close>

text \<open>
  A Python \<open>str\<close> is a sequence of Unicode code points, so it is modelled as a list of
  natural numbers. \<open>str\<close> turns an ASCII literal into that representation; code points
  beyond ASCII are written as numbers.
\<close>

type_synonym pystr = "nat list"

definition str :: "string \<Rightarrow> pystr" where
  "str s = map of_char s"

definition check_mark :: pystr where
  \<comment> \<open>the one-character string U+2713\<close>
  "check_mark = [0x2713]"

definition startswith :: "pystr \<Rightarrow> pystr \<Rightarrow> bool" where
  \<comment> \<open>\<open>s.startswith(p)\<close>\<close>
  "startswith s p = (take (length p) s = p)"

fun contains :: "pystr \<Rightarrow> pystr \<Rightarrow> bool" where
  \<comment> \<open>\<open>needle in hay\<close>\<close>
  "contains needle [] = (needle = [])"
| "contains needle (c # cs) = (startswith (c # cs) needle \<or> contains needle cs)"

fun str_nat :: "nat \<Rightarrow> pystr" where
  \<comment> \<open>decimal digits of a natural number\<close>
  "str_nat n = (if n < 10 then [48 + n] else str_nat (n div 10) @ [48 + n mod 10])"

declare str_nat.simps [simp del]

definition str_int :: "int \<Rightarrow> pystr" where
  \<comment> \<open>\<open>str(i)\<close>, as an f-string formats an \<open>int\<close>\<close>
  "str_int i = (if i < 0 then 45 # str_nat (nat (- i)) else str_nat (nat i))"

definition is_space :: "nat \<Rightarrow> bool" where
  \<comment> \<open>the code points that \<open>str.strip()\<close> and \<open>str.split()\<close> treat as whitespace\<close>
  "is_space c =
     ((9 \<le> c \<and> c \<le> 13) \<or> (28 \<le> c \<and> c \<le> 32) \<or> c = 0x85 \<or> c = 0xA0 \<or> c = 0x1680
      \<or> (0x2000 \<le> c \<and> c \<le> 0x200A) \<or> c = 0x2028 \<or> c = 0x2029 \<or> c = 0x202F
      \<or> c = 0x205F \<or> c = 0x3000)"

definition strip :: "pystr \<Rightarrow> pystr" where
  \<comment> \<open>\<open>s.strip()\<close>\<close>
  "strip s = rev (dropWhile is_space (rev (dropWhile is_space s)))"

fun split_from :: "pystr \<Rightarrow> pystr \<Rightarrow> pystr list" where
  \<comment> \<open>the words of the text, the first argument being the word read so far\<close>
  "split_from cur [] = (if cur = [] then [] else [cur])"
| "split_from cur (c # cs) =
     (if is_space c then (if cur = [] then split_from [] cs else cur # split_from [] cs)
      else split_from (cur @ [c]) cs)"

definition split :: "pystr \<Rightarrow> pystr list" where
  \<comment> \<open>\<open>s.split()\<close>: the maximal runs of non-whitespace\<close>
  "split s = split_from [] s"

fun join :: "pystr \<Rightarrow> pystr list \<Rightarrow> pystr" where
  \<comment> \<open>\<open>sep.join(xs)\<close>\<close>
  "join sep [] = []"
| "join sep [x] = x"
| "join sep (x # y # ys) = x @ sep @ join sep (y # ys)"

definition split_once :: "pystr \<Rightarrow> nat \<Rightarrow> pystr list" where
  \<comment> \<open>\<open>s.split(sep, 1)\<close> for a one-character separator\<close>
  "split_once s sep =
     (case dropWhile (\<lambda>c. c \<noteq> sep) s of
        [] \<Rightarrow> [s]
      | _ # after \<Rightarrow> [takeWhile (\<lambda>c. c \<noteq> sep) s, after])"

definition replace_char :: "pystr \<Rightarrow> nat \<Rightarrow> pystr" where
  \<comment> \<open>\<open>s.replace(c, '')\<close> for a one-character \<open>c\<close>\<close>
  "replace_char s c = filter (\<lambda>x. x \<noteq> c) s"

section \<open>Regular expressions\<close>

text \<open>
  The three patterns of graph.py use literals, alternation, concatenation, the word
  boundary \<open>\b\<close> and greedy bounded repetition of a character class. \<open>rx_ends\<close> lists
  the positions where a match starting at position \<open>i\<close> can end, in the order in which
  a backtracking matcher tries them (greedy repetition: longest first; alternation:
  left first), so \<open>re.search\<close> returns the first end of the leftmost start that has
  one. Which code points are word characters (\<open>\w\<close>) is a table of the Python runtime
  and is a parameter.
\<close>

datatype rx =
    Lit pystr
  | Rep "nat \<Rightarrow> bool" nat "nat option"
  | WordB
  | Cat rx rx
  | Alt rx rx

definition word_boundary :: "(nat \<Rightarrow> bool) \<Rightarrow> pystr \<Rightarrow> nat \<Rightarrow> bool" where
  "word_boundary w s i =
     ((0 < i \<and> i \<le> length s \<and> w (s ! (i - 1))) \<noteq> (i < length s \<and> w (s ! i)))"

fun rx_ends :: "(nat \<Rightarrow> bool) \<Rightarrow> rx \<Rightarrow> pystr \<Rightarrow> nat \<Rightarrow> nat list" where
  "rx_ends w (Lit l) s i = (if take (length l) (drop i s) = l then [i + length l] else [])"
| "rx_ends w (Rep cls lo hi) s i =
     (let n = length (takeWhile cls (drop i s));
          m = (case hi of None \<Rightarrow> n | Some h \<Rightarrow> min h n)
      in map (\<lambda>k. i + k) (rev [lo..<Suc m]))"
| "rx_ends w WordB s i = (if word_boundary w s i then [i] else [])"
| "rx_ends w (Cat a b) s i = concat (map (rx_ends w b s) (rx_ends w a s i))"
| "rx_ends w (Alt a b) s i = rx_ends w a s i @ rx_ends w b s i"

fun search_from :: "(nat \<Rightarrow> bool) \<Rightarrow> rx \<Rightarrow> pystr \<Rightarrow> nat list \<Rightarrow> pystr option" where
  "search_from w r s [] = None"
| "search_from w r s (i # is) =
     (case rx_ends w r s i of
        [] \<Rightarrow> search_from w r s is
      | e # _ \<Rightarrow> Some (take (e - i) (drop i s)))"

definition re_search :: "(nat \<Rightarrow> bool) \<Rightarrow> rx \<Rightarrow> pystr \<Rightarrow> pystr option" where
  \<comment> \<open>\<open>re.search(r, s)\<close>, giving \<open>match.group()\<close>\<close>
  "re_search w r s = search_from w r s [0..<Suc (length s)]"

definition in_range :: "char \<Rightarrow> char \<Rightarrow> nat \<Rightarrow> bool" where
  \<comment> \<open>a range \<open>a-b\<close> of a character class\<close>
  "in_range a b c = (of_char a \<le> c \<and> c \<le> of_char b)"

definition one_of :: "string \<Rightarrow> nat \<Rightarrow> bool" where
  \<comment> \<open>the single characters of a character class\<close>
  "one_of cs c = list_ex (\<lambda>x. of_char x = c) cs"

section \<open>The eligibility rule (tools.py)\<close>

record EligibilityResult =
  is_eligible :: bool
  reasons :: "pystr list"
  age :: int
  car_age_ok :: bool
  mileage_ok :: bool

text \<open>
  \<open>evaluate_eligibility\<close> reads the clock (\<open>datetime.now().year\<close>); the year read is the
  first argument of the model.
\<close>

definition evaluate_eligibility :: "int \<Rightarrow> int \<Rightarrow> int \<Rightarrow> int \<Rightarrow> EligibilityResult" where
  "evaluate_eligibility current_year birth_year car_year mileage =
     (let age = current_year - birth_year;
          age_ok = (age \<ge> 18);
          car_age_ok = (car_year \<ge> 2015);
          mileage_ok = (mileage < 100000);
          is_eligible = (age_ok \<and> car_age_ok \<and> mileage_ok);
          reasons = [];
          reasons = reasons @
            [if \<not> age_ok
             then str ''El cliente tiene '' @ str_int age @ str '' a'' @ [0xF1]
                  @ str ''os, debe ser mayor de 18''
             else check_mark @ str '' Edad: '' @ str_int age @ str '' a'' @ [0xF1]
                  @ str ''os (mayor de 18)''];
          reasons = reasons @
            [if \<not> car_age_ok
             then str ''El auto es del a'' @ [0xF1] @ str ''o '' @ str_int car_year
                  @ str '', debe ser del 2015 o posterior''
             else check_mark @ str '' A'' @ [0xF1] @ str ''o del auto: '' @ str_int car_year
                  @ str '' (posterior a 2015)''];
          reasons = reasons @
            [if \<not> mileage_ok
             then str ''El kilometraje es '' @ str_int mileage
                  @ str '' km, debe ser menor a 100,000 km''
             else check_mark @ str '' Kilometraje: '' @ str_int mileage
                  @ str '' km (menor a 100,000 km)'']
      in \<lparr> is_eligible = is_eligible, reasons = reasons, age = age,
           car_age_ok = car_age_ok, mileage_ok = mileage_ok \<rparr>)"

section \<open>The Python runtime and the language model\<close>

text \<open>
  What the code takes from outside the repository is gathered in one record: the
  language model behind \<open>self.llm.invoke\<close> (its reply's \<open>content\<close>, or \<open>None\<close> when the
  call raises), the clock, and the Unicode tables of the runtime (\<open>str.lower\<close>,
  \<open>str.upper\<close>, \<open>str.capitalize\<close>, and which code points beyond ASCII are word
  characters and decimal digits). A prompt is a fixed text around the values put into
  it, so it is represented by those values.
\<close>

datatype prompt =
    SafetyPrompt pystr
  | FullNamePrompt pystr
  | CarBrandPrompt pystr
  | CarModelPrompt pystr pystr

record runtime =
  llm_invoke :: "prompt \<Rightarrow> pystr option"
  now_year :: int
  str_lower :: "pystr \<Rightarrow> pystr"
  str_upper :: "pystr \<Rightarrow> pystr"
  str_capitalize :: "pystr \<Rightarrow> pystr"
  unicode_word :: "nat \<Rightarrow> bool"
  unicode_digit :: "nat \<Rightarrow> nat option"

definition digit_value :: "runtime \<Rightarrow> nat \<Rightarrow> nat option" where
  \<comment> \<open>the value of a code point that \<open>\d\<close> matches\<close>
  "digit_value rt c = (if in_range CHR ''0'' CHR ''9'' c then Some (c - 48) else unicode_digit rt c)"

definition is_digit :: "runtime \<Rightarrow> nat \<Rightarrow> bool" where
  \<comment> \<open>\<open>\d\<close>\<close>
  "is_digit rt c = (digit_value rt c \<noteq> None)"

definition is_word :: "runtime \<Rightarrow> nat \<Rightarrow> bool" where
  \<comment> \<open>\<open>\w\<close>\<close>
  "is_word rt c =
     (in_range CHR ''a'' CHR ''z'' c \<or> in_range CHR ''A'' CHR ''Z'' c \<or> c = of_char CHR ''_''
      \<or> is_digit rt c \<or> unicode_word rt c)"

definition int_of_digits :: "runtime \<Rightarrow> pystr \<Rightarrow> int" where
  \<comment> \<open>\<open>int(s)\<close> for a string of decimal digits\<close>
  "int_of_digits rt s =
     foldl (\<lambda>a c. 10 * a + (case digit_value rt c of None \<Rightarrow> 0 | Some d \<Rightarrow> int d)) 0 s"

section \<open>The conversation record (models.py, graph.py)\<close>

datatype step =
    GREETING
  | COLLECTING_PERSONAL_DATA
  | CONFIRMING_PERSONAL_DATA
  | COLLECTING_CAR_DATA
  | CONFIRMING_CAR_DATA
  | EVALUATING_ELIGIBILITY
  | COMPLETED

text \<open>
  \<open>personal_data\<close> and \<open>car_data\<close> are dictionaries with the keys of the pydantic models
  \<open>PersonalData\<close> and \<open>CarData\<close>, whose values have the types declared there. A key can
  be missing (the dictionary \<open>{}\<close> of a reset), map to \<open>None\<close> (as \<open>model_dump()\<close> writes
  an unset field) or map to a value; \<open>d.get(k, default)\<close> tells the first two apart.
\<close>

datatype 'a slot = Absent | PyNone | Val 'a

definition dict_get :: "'a slot \<Rightarrow> 'a option" where
  \<comment> \<open>\<open>d.get(k)\<close>\<close>
  "dict_get x = (case x of Absent \<Rightarrow> None | PyNone \<Rightarrow> None | Val v \<Rightarrow> Some v)"

definition dict_get_default :: "'a slot \<Rightarrow> 'a \<Rightarrow> 'a option" where
  \<comment> \<open>\<open>d.get(k, default)\<close>\<close>
  "dict_get_default x d = (case x of Absent \<Rightarrow> Some d | PyNone \<Rightarrow> None | Val v \<Rightarrow> Some v)"

definition truthy_str :: "pystr option \<Rightarrow> pystr option" where
  \<comment> \<open>the string when \<open>if x:\<close> holds of an optional string\<close>
  "truthy_str x = (case x of None \<Rightarrow> None | Some s \<Rightarrow> if s = [] then None else Some s)"

definition truthy_int :: "int option \<Rightarrow> int option" where
  \<comment> \<open>the number when \<open>if x:\<close> holds of an optional integer\<close>
  "truthy_int x = (case x of None \<Rightarrow> None | Some i \<Rightarrow> if i = 0 then None else Some i)"

record PersonalData =
  full_name :: "pystr slot"
  birth_year :: "int slot"
  email :: "pystr slot"

record CarData =
  brand :: "pystr slot"
  model :: "pystr slot"
  year :: "int slot"
  mileage :: "int slot"

definition empty_personal :: PersonalData where
  \<comment> \<open>the dictionary \<open>{}\<close>\<close>
  "empty_personal = \<lparr> full_name = Absent, birth_year = Absent, email = Absent \<rparr>"

definition empty_car :: CarData where
  \<comment> \<open>the dictionary \<open>{}\<close>\<close>
  "empty_car = \<lparr> brand = Absent, model = Absent, year = Absent, mileage = Absent \<rparr>"

datatype message = HumanMessage pystr | AIMessage pystr

text \<open>
  \<open>last_response\<close> holds the text shown to the user. \<open>ResponseGenerator\<close> produces it
  from a template or, when enabled, through the language model, so the model records
  which method was called with which arguments; \<open>Text\<close> is a text that graph.py or
  responses.py builds itself.
\<close>

datatype response =
    Text pystr
  | Greeting
  | AskBirthYear "pystr option"
  | AskEmail
  | ConfirmPersonalData PersonalData
  | PersonalDataConfirmed pystr
  | PersonalDataReset
  | AskCarBrand pystr
  | AskCarModel "pystr option" pystr
  | AskCarYear
  | ConfirmCarData CarData
  | CarDataReset pystr
  | Eligible pystr
  | NotEligible pystr "pystr list"
  | InvalidName
  | InvalidBirthYear
  | InvalidEmail
  | InvalidCarBrand
  | InvalidCarModel "pystr option"
  | InvalidCarYear
  | InvalidMileage
  | InvalidConfirmation
  | InvalidCarConfirmation

record GraphState =
  messages :: "message list"
  conversation_id :: pystr
  current_step :: step
  personal_data :: PersonalData
  car_data :: CarData
  personal_data_confirmed :: bool
  car_data_confirmed :: bool
  eligibility_result :: "EligibilityResult option"
  last_response :: response

datatype error = AttributeError | IndexError

section \<open>Extraction through the language model (graph.py)\<close>

definition extract_with_llm :: "runtime \<Rightarrow> prompt \<Rightarrow> pystr option" where
  "extract_with_llm rt p =
     (case llm_invoke rt p of
        None \<Rightarrow> None
      | Some content \<Rightarrow>
          (let extracted = strip content;
               extracted = join (str '' '') (split extracted)
           in if extracted \<noteq> [] then Some extracted else None))"

definition validate_input_safety :: "runtime \<Rightarrow> pystr \<Rightarrow> bool \<times> pystr option" where
  "validate_input_safety rt user_input =
     (case llm_invoke rt (SafetyPrompt user_input) of
        None \<Rightarrow> (True, None)
      | Some content \<Rightarrow>
          (let result = str_upper rt (strip content)
           in if startswith result (str ''SEGURO'') then (True, None)
              else if startswith result (str ''INSEGURO'') then
                (let parts = split_once result (of_char CHR ''|'');
                     reason = (if length parts > 1 then strip (parts ! 1)
                               else str ''contenido inapropiado detectado'')
                 in (False, Some reason))
              else (True, None)))"

definition format_opt :: "pystr option \<Rightarrow> pystr" where
  \<comment> \<open>an optional string inside an f-string\<close>
  "format_opt x = (case x of None \<Rightarrow> str ''None'' | Some s \<Rightarrow> s)"

definition extract_full_name :: "runtime \<Rightarrow> pystr \<Rightarrow> pystr option \<times> pystr option" where
  "extract_full_name rt user_input =
     (case validate_input_safety rt user_input of (is_safe, safety_reason) \<Rightarrow>
        if \<not> is_safe then
          (None, Some (str ''Tu mensaje contiene contenido inapropiado ('' @ format_opt safety_reason
                       @ str ''). Por favor, proporciona solo tu nombre completo.''))
        else
          (case truthy_str (extract_with_llm rt (FullNamePrompt user_input)) of
             Some result \<Rightarrow>
               if result \<noteq> str ''NO_VALIDO'' \<and> length (split result) \<ge> 2
               then (Some result, None) else (None, None)
           | None \<Rightarrow> (None, None)))"

definition extract_car_brand :: "runtime \<Rightarrow> pystr \<Rightarrow> pystr option \<times> pystr option" where
  "extract_car_brand rt user_input =
     (case validate_input_safety rt user_input of (is_safe, safety_reason) \<Rightarrow>
        if \<not> is_safe then
          (None, Some (str ''Tu mensaje contiene contenido inapropiado ('' @ format_opt safety_reason
                       @ str ''). Por favor, proporciona solo la marca de tu auto.''))
        else
          (case truthy_str (extract_with_llm rt (CarBrandPrompt user_input)) of
             Some result \<Rightarrow>
               if result \<noteq> str ''NO_VALIDO''
               then (Some (str_capitalize rt result), None) else (None, None)
           | None \<Rightarrow> (None, None)))"

definition extract_car_model :: "runtime \<Rightarrow> pystr \<Rightarrow> pystr option \<Rightarrow> pystr option \<times> pystr option" where
  "extract_car_model rt user_input brand_arg =
     (case validate_input_safety rt user_input of (is_safe, safety_reason) \<Rightarrow>
        if \<not> is_safe then
          (None, Some (str ''Tu mensaje contiene contenido inapropiado ('' @ format_opt safety_reason
                       @ str ''). Por favor, proporciona solo el modelo de tu auto.''))
        else
          (let brand_context =
                 (case truthy_str brand_arg of
                    Some b \<Rightarrow> str '' La marca del veh'' @ [0xED] @ str ''culo es '' @ b @ str ''.''
                  | None \<Rightarrow> [])
           in case truthy_str (extract_with_llm rt (CarModelPrompt brand_context user_input)) of
                Some result \<Rightarrow>
                  if result \<noteq> str ''NO_VALIDO''
                  then (Some (strip result), None) else (None, None)
              | None \<Rightarrow> (None, None)))"

section \<open>Extraction by pattern (graph.py)\<close>

definition year_pattern :: "runtime \<Rightarrow> rx" where
  \<comment> \<open>\<open>\b(19|20)\d{2}\b\<close>\<close>
  "year_pattern rt =
     Cat WordB (Cat (Alt (Lit (str ''19'')) (Lit (str ''20'')))
       (Cat (Rep (is_digit rt) 2 (Some 2)) WordB))"

definition email_pattern :: rx where
  \<comment> \<open>\<open>\b[A-Za-z0-9._%+-]+@[A-Za-z0-9.-]+\.[A-Z|a-z]{2,}\b\<close>\<close>
  "email_pattern =
     Cat WordB
       (Cat (Rep (\<lambda>c. in_range CHR ''A'' CHR ''Z'' c \<or> in_range CHR ''a'' CHR ''z'' c
                      \<or> in_range CHR ''0'' CHR ''9'' c \<or> one_of ''._%+-'' c) 1 None)
       (Cat (Lit (str ''@''))
       (Cat (Rep (\<lambda>c. in_range CHR ''A'' CHR ''Z'' c \<or> in_range CHR ''a'' CHR ''z'' c
                      \<or> in_range CHR ''0'' CHR ''9'' c \<or> one_of ''.-'' c) 1 None)
       (Cat (Lit (str ''.''))
       (Cat (Rep (\<lambda>c. in_range CHR ''A'' CHR ''Z'' c \<or> one_of ''|'' c
                      \<or> in_range CHR ''a'' CHR ''z'' c) 2 None)
        WordB)))))"

definition mileage_pattern :: "runtime \<Rightarrow> rx" where
  \<comment> \<open>\<open>\b(\d{1,6})\b\<close>\<close>
  "mileage_pattern rt = Cat WordB (Cat (Rep (is_digit rt) 1 (Some 6)) WordB)"

definition extract_year :: "runtime \<Rightarrow> pystr \<Rightarrow> int option" where
  "extract_year rt text =
     (case re_search (is_word rt) (year_pattern rt) text of
        Some m \<Rightarrow> Some (int_of_digits rt m)
      | None \<Rightarrow> None)"

definition extract_email :: "runtime \<Rightarrow> pystr \<Rightarrow> pystr option" where
  "extract_email rt text =
     (case re_search (is_word rt) email_pattern text of
        Some m \<Rightarrow> Some m
      | None \<Rightarrow> None)"

definition extract_mileage :: "runtime \<Rightarrow> pystr \<Rightarrow> int option" where
  "extract_mileage rt text =
     (let cleaned = replace_char (replace_char text (of_char CHR ''.'')) (of_char CHR '','')
      in case re_search (is_word rt) (mileage_pattern rt) cleaned of
           Some m \<Rightarrow> Some (int_of_digits rt m)
         | None \<Rightarrow> None)"

section \<open>The nodes of the graph (graph.py)\<close>

text \<open>
  A node takes the state and returns the new one, or raises; an exception that the
  node does not catch is the \<open>Inl\<close> result.
\<close>

definition last_user_input :: "GraphState \<Rightarrow> pystr" where
  \<comment> \<open>the content of \<open>state["messages"][-1]\<close> when it is a \<open>HumanMessage\<close>, else \<open>""\<close>;
      the nodes read it only after they have found the list non-empty\<close>
  "last_user_input s =
     (case rev (messages s) of
        [] \<Rightarrow> []
      | HumanMessage c # _ \<Rightarrow> c
      | AIMessage c # _ \<Rightarrow> [])"

definition first_name :: "PersonalData \<Rightarrow> error + pystr" where
  \<comment> \<open>\<open>state["personal_data"].get("full_name", "Usuario").split()[0]\<close>\<close>
  "first_name pd =
     (case dict_get_default (full_name pd) (str ''Usuario'') of
        None \<Rightarrow> Inl AttributeError
      | Some n \<Rightarrow> (case split n of [] \<Rightarrow> Inl IndexError | w # _ \<Rightarrow> Inr w))"

definition greeting_node :: "GraphState \<Rightarrow> error + GraphState" where
  "greeting_node s =
     Inr (s\<lparr>current_step := COLLECTING_PERSONAL_DATA, last_response := Greeting\<rparr>)"

definition collect_personal_data_node :: "runtime \<Rightarrow> GraphState \<Rightarrow> error + GraphState" where
  "collect_personal_data_node rt s =
     (if messages s = [] then
        Inr (s\<lparr>last_response := Text (str ''Por favor, proporciona tu nombre completo.'')\<rparr>)
      else
        (let user_input = last_user_input s;
             pd = personal_data s
         in if truthy_str (dict_get (full_name pd)) = None then
              (case extract_full_name rt user_input of (name, safety_error) \<Rightarrow>
                 (case truthy_str safety_error of
                    Some e \<Rightarrow> Inr (s\<lparr>last_response := Text e\<rparr>)
                  | None \<Rightarrow>
                      (case truthy_str name of
                         Some n \<Rightarrow>
                           (case split n of
                              [] \<Rightarrow> Inl IndexError
                            | w # _ \<Rightarrow>
                                Inr (s\<lparr>personal_data := pd\<lparr>full_name := Val n\<rparr>,
                                       last_response := AskBirthYear (Some w)\<rparr>))
                       | None \<Rightarrow> Inr (s\<lparr>last_response := InvalidName\<rparr>))))
            else if truthy_int (dict_get (birth_year pd)) = None then
              (case truthy_int (extract_year rt user_input) of
                 Some y \<Rightarrow>
                   if 1900 \<le> y \<and> y \<le> 2010
                   then Inr (s\<lparr>personal_data := pd\<lparr>birth_year := Val y\<rparr>,
                               last_response := AskEmail\<rparr>)
                   else Inr (s\<lparr>last_response := InvalidBirthYear\<rparr>)
               | None \<Rightarrow> Inr (s\<lparr>last_response := InvalidBirthYear\<rparr>))
            else if truthy_str (dict_get (email pd)) = None then
              (case truthy_str (extract_email rt user_input) of
                 Some e \<Rightarrow>
                   Inr (s\<lparr>personal_data := pd\<lparr>email := Val e\<rparr>,
                          current_step := CONFIRMING_PERSONAL_DATA,
                          last_response := ConfirmPersonalData (pd\<lparr>email := Val e\<rparr>)\<rparr>)
               | None \<Rightarrow> Inr (s\<lparr>last_response := InvalidEmail\<rparr>))
            else Inr s))"

definition confirm_personal_data_node :: "runtime \<Rightarrow> GraphState \<Rightarrow> error + GraphState" where
  "confirm_personal_data_node rt s =
     (if messages s = [] then Inr s
      else
        (let user_input = last_user_input s;
             user_input_lower = strip (str_lower rt user_input)
         in if contains (str ''s'' @ [0xED]) user_input_lower
               \<or> contains (str ''si'') user_input_lower
               \<or> contains (str ''correcto'') user_input_lower
               \<or> contains (str ''yes'') user_input_lower
               \<or> contains (str ''ok'') user_input_lower then
              (case first_name (personal_data s) of
                 Inl e \<Rightarrow> Inl e
               | Inr fn \<Rightarrow>
                   Inr (s\<lparr>personal_data_confirmed := True,
                          current_step := COLLECTING_CAR_DATA,
                          last_response := PersonalDataConfirmed fn\<rparr>))
            else if contains (str ''no'') user_input_lower then
              Inr (s\<lparr>personal_data := empty_personal,
                     current_step := COLLECTING_PERSONAL_DATA,
                     last_response := PersonalDataReset\<rparr>)
            else Inr (s\<lparr>last_response := InvalidConfirmation\<rparr>)))"

definition collect_car_data_node :: "runtime \<Rightarrow> GraphState \<Rightarrow> error + GraphState" where
  "collect_car_data_node rt s =
     (if messages s = [] then
        Inr (s\<lparr>last_response := Text (str ''Por favor, proporciona la marca de tu auto.'')\<rparr>)
      else
        (let user_input = last_user_input s;
             cd = car_data s
         in if truthy_str (dict_get (brand cd)) = None then
              (case extract_car_brand rt user_input of (found, safety_error) \<Rightarrow>
                 (case truthy_str safety_error of
                    Some e \<Rightarrow> Inr (s\<lparr>last_response := Text e\<rparr>)
                  | None \<Rightarrow>
                      (case truthy_str found of
                         Some b \<Rightarrow>
                           Inr (s\<lparr>car_data := cd\<lparr>brand := Val b\<rparr>,
                                  last_response := AskCarBrand b\<rparr>)
                       | None \<Rightarrow> Inr (s\<lparr>last_response := InvalidCarBrand\<rparr>))))
            else if truthy_str (dict_get (model cd)) = None then
              (case extract_car_model rt user_input (dict_get (brand cd)) of
                 (found, safety_error) \<Rightarrow>
                   (case truthy_str safety_error of
                      Some e \<Rightarrow> Inr (s\<lparr>last_response := Text e\<rparr>)
                    | None \<Rightarrow>
                        (case truthy_str found of
                           Some m \<Rightarrow>
                             Inr (s\<lparr>car_data := cd\<lparr>model := Val m\<rparr>,
                                    last_response := AskCarModel (dict_get (brand cd)) m\<rparr>)
                         | None \<Rightarrow>
                             Inr (s\<lparr>last_response := InvalidCarModel (dict_get (brand cd))\<rparr>))))
            else if truthy_int (dict_get (year cd)) = None then
              (case truthy_int (extract_year rt user_input) of
                 Some y \<Rightarrow>
                   if 2000 \<le> y \<and> y \<le> 2025
                   then Inr (s\<lparr>car_data := cd\<lparr>year := Val y\<rparr>, last_response := AskCarYear\<rparr>)
                   else Inr (s\<lparr>last_response := InvalidCarYear\<rparr>)
               | None \<Rightarrow> Inr (s\<lparr>last_response := InvalidCarYear\<rparr>))
            else if truthy_int (dict_get (mileage cd)) = None then
              (case truthy_int (extract_mileage rt user_input) of
                 Some m \<Rightarrow>
                   if 0 \<le> m \<and> m \<le> 500000
                   then Inr (s\<lparr>car_data := cd\<lparr>mileage := Val m\<rparr>,
                               current_step := CONFIRMING_CAR_DATA,
                               last_response := ConfirmCarData (cd\<lparr>mileage := Val m\<rparr>)\<rparr>)
                   else Inr (s\<lparr>last_response := InvalidMileage\<rparr>)
               | None \<Rightarrow> Inr (s\<lparr>last_response := InvalidMileage\<rparr>))
            else Inr s))"

definition confirm_car_data_node :: "runtime \<Rightarrow> GraphState \<Rightarrow> error + GraphState" where
  "confirm_car_data_node rt s =
     (if messages s = [] then Inr s
      else
        (let user_input = last_user_input s;
             user_input_lower = strip (str_lower rt user_input)
         in if contains (str ''s'' @ [0xED]) user_input_lower
               \<or> contains (str ''si'') user_input_lower
               \<or> contains (str ''correcto'') user_input_lower
               \<or> contains (str ''yes'') user_input_lower
               \<or> contains (str ''ok'') user_input_lower then
              Inr (s\<lparr>car_data_confirmed := True, current_step := EVALUATING_ELIGIBILITY\<rparr>)
            else if contains (str ''no'') user_input_lower then
              (case first_name (personal_data s) of
                 Inl e \<Rightarrow> Inl e
               | Inr fn \<Rightarrow>
                   Inr (s\<lparr>car_data := empty_car,
                          current_step := COLLECTING_CAR_DATA,
                          last_response := CarDataReset fn\<rparr>))
            else Inr (s\<lparr>last_response := InvalidCarConfirmation\<rparr>)))"

definition evaluate_eligibility_node :: "runtime \<Rightarrow> GraphState \<Rightarrow> error + GraphState" where
  "evaluate_eligibility_node rt s =
     (let birth_year_read = dict_get (birth_year (personal_data s));
          car_year = dict_get (year (car_data s));
          mileage_read = dict_get (mileage (car_data s))
      in case (truthy_int birth_year_read, truthy_int car_year, truthy_int mileage_read) of
           (Some b, Some c, Some m) \<Rightarrow>
             Inr (s\<lparr>eligibility_result := Some (evaluate_eligibility (now_year rt) b c m),
                    current_step := COMPLETED\<rparr>)
         | _ \<Rightarrow>
             Inr (s\<lparr>last_response :=
                      Text (str ''Error: Faltan datos para evaluar la elegibilidad.'')\<rparr>))"

definition eligibility_result_response :: "EligibilityResult option \<Rightarrow> pystr \<Rightarrow> response" where
  \<comment> \<open>\<open>ResponseGenerator.eligibility_result\<close> (responses.py)\<close>
  "eligibility_result_response result fn =
     (case result of
        None \<Rightarrow> Text (str ''Error al evaluar la elegibilidad.'')
      | Some r \<Rightarrow>
          if is_eligible r then Eligible fn
          else NotEligible fn (filter (\<lambda>x. \<not> startswith x check_mark) (reasons r)))"

definition completed_node :: "GraphState \<Rightarrow> error + GraphState" where
  "completed_node s =
     (case first_name (personal_data s) of
        Inl e \<Rightarrow> Inl e
      | Inr fn \<Rightarrow>
          Inr (s\<lparr>last_response := eligibility_result_response (eligibility_result s) fn\<rparr>))"

definition should_confirm_personal_data :: "GraphState \<Rightarrow> string" where
  "should_confirm_personal_data s =
     (let pd = personal_data s
      in if truthy_str (dict_get (full_name pd)) \<noteq> None
            \<and> truthy_int (dict_get (birth_year pd)) \<noteq> None
            \<and> truthy_str (dict_get (email pd)) \<noteq> None
         then ''confirm'' else ''continue'')"

definition should_confirm_car_data :: "GraphState \<Rightarrow> string" where
  "should_confirm_car_data s =
     (let cd = car_data s
      in if truthy_str (dict_get (brand cd)) \<noteq> None
            \<and> truthy_str (dict_get (model cd)) \<noteq> None
            \<and> truthy_int (dict_get (year cd)) \<noteq> None
            \<and> truthy_int (dict_get (mileage cd)) \<noteq> None
         then ''confirm'' else ''continue'')"

definition after_confirm_car_data :: "GraphState \<Rightarrow> string" where
  "after_confirm_car_data s = (if car_data_confirmed s then ''evaluate'' else ''continue'')"

section \<open>The compiled graph (graph.py)\<close>

text \<open>
  \<open>_build_graph\<close> enters at the router, which leaves the state as it is and dispatches
  on \<open>current_step\<close>. Every node leads to the end, but \<open>confirm_car_data\<close>, which leads
  to \<open>evaluate_eligibility\<close> when \<open>_after_confirm_car_data\<close> says so, and
  \<open>evaluate_eligibility\<close>, which always leads to \<open>completed\<close>. A node returns the whole
  state, so its result replaces the state (the reducer of \<open>messages\<close> merges by
  message id, so the messages a node hands back stay as they are). A turn of the
  conversation is one \<open>invoke\<close> on the stored state with the user's message appended to
  \<open>messages\<close> (chatbot.py).
\<close>

definition invoke :: "runtime \<Rightarrow> GraphState \<Rightarrow> error + GraphState" where
  "invoke rt s =
     (case current_step s of
        GREETING \<Rightarrow> greeting_node s
      | COLLECTING_PERSONAL_DATA \<Rightarrow> collect_personal_data_node rt s
      | CONFIRMING_PERSONAL_DATA \<Rightarrow> confirm_personal_data_node rt s
      | COLLECTING_CAR_DATA \<Rightarrow> collect_car_data_node rt s
      | CONFIRMING_CAR_DATA \<Rightarrow>
          (case confirm_car_data_node rt s of
             Inl e \<Rightarrow> Inl e
           | Inr s1 \<Rightarrow>
               if after_confirm_car_data s1 = ''evaluate'' then
                 (case evaluate_eligibility_node rt s1 of
                    Inl e \<Rightarrow> Inl e
                  | Inr s2 \<Rightarrow> completed_node s2)
               else Inr s1)
      | EVALUATING_ELIGIBILITY \<Rightarrow>
          (case evaluate_eligibility_node rt s of
             Inl e \<Rightarrow> Inl e
           | Inr s2 \<Rightarrow> completed_node s2)
      | COMPLETED \<Rightarrow> completed_node s)"

section \<open>The words of the specification\<close>

text \<open>
  The specification classifies a confirmation by two token sets, the affirmative one
  checked first. These definitions follow its words; the nodes above spell the test out
  as graph.py does.
\<close>

definition affirmative_tokens :: "pystr list" where
  "affirmative_tokens = [str ''s'' @ [0xED], str ''si'', str ''correcto'', str ''yes'', str ''ok'']"

definition affirmative :: "pystr \<Rightarrow> bool" where
  \<comment> \<open>the lowercased text contains one of the affirmative tokens\<close>
  "affirmative l = list_ex (\<lambda>t. contains t l) affirmative_tokens"

definition negative :: "pystr \<Rightarrow> bool" where
  \<comment> \<open>the lowercased text contains \<open>no\<close> and none of the affirmative tokens\<close>
  "negative l = (contains (str ''no'') l \<and> \<not> affirmative l)"

text \<open>
  The specification speaks of an extraction that succeeds or fails. For the three
  personal fields this is the extractor's result after the checks of the collecting
  node: no safety error and a non-empty name; a year within \<open>[1900, 2010]\<close>; a non-empty
  email address.
\<close>

definition accepted_full_name :: "runtime \<Rightarrow> pystr \<Rightarrow> pystr option" where
  "accepted_full_name rt user_input =
     (case extract_full_name rt user_input of (name, safety_error) \<Rightarrow>
        (case truthy_str safety_error of Some e \<Rightarrow> None | None \<Rightarrow> truthy_str name))"

definition accepted_birth_year :: "runtime \<Rightarrow> pystr \<Rightarrow> int option" where
  "accepted_birth_year rt user_input =
     (case truthy_int (extract_year rt user_input) of
        Some y \<Rightarrow> if 1900 \<le> y \<and> y \<le> 2010 then Some y else None
      | None \<Rightarrow> None)"

definition accepted_email :: "runtime \<Rightarrow> pystr \<Rightarrow> pystr option" where
  "accepted_email rt user_input = truthy_str (extract_email rt user_input)"

definition missing_str :: "pystr slot \<Rightarrow> bool" where
  \<comment> \<open>a field that the collecting nodes take as missing: \<open>not d.get(k)\<close>\<close>
  "missing_str x = (truthy_str (dict_get x) = None)"

definition missing_int :: "int slot \<Rightarrow> bool" where
  "missing_int x = (truthy_int (dict_get x) = None)"

definition changed_fields :: "PersonalData \<Rightarrow> PersonalData \<Rightarrow> nat" where
  \<comment> \<open>how many of the three fields differ\<close>
  "changed_fields p q =
     (if full_name p = full_name q then 0 else 1)
     + (if birth_year p = birth_year q then 0 else 1)
     + (if email p = email q then 0 else 1)"

definition handlers :: "runtime \<Rightarrow> (GraphState \<Rightarrow> error + GraphState) list" where
  \<comment> \<open>the step handlers, in the order of the steps\<close>
  "handlers rt =
     [greeting_node, collect_personal_data_node rt, confirm_personal_data_node rt,
      collect_car_data_node rt, confirm_car_data_node rt, evaluate_eligibility_node rt,
      completed_node]"

section \<open>A scripted runtime\<close>

text \<open>
  A deterministic stand-in for the language model and the runtime's tables, for
  evaluating the model on concrete conversations: the language model answers
  \<open>SEGURO\<close> to the safety prompt and repeats the user's text to an extraction prompt;
  letters are mapped for ASCII only; the clock reads 2025.
\<close>

definition ascii_lower :: "pystr \<Rightarrow> pystr" where
  "ascii_lower s = map (\<lambda>c. if in_range CHR ''A'' CHR ''Z'' c then c + 32 else c) s"

definition ascii_upper :: "pystr \<Rightarrow> pystr" where
  "ascii_upper s = map (\<lambda>c. if in_range CHR ''a'' CHR ''z'' c then c - 32 else c) s"

definition scripted_llm :: "prompt \<Rightarrow> pystr option" where
  "scripted_llm p =
     (case p of
        SafetyPrompt u \<Rightarrow> Some (str ''SEGURO'')
      | FullNamePrompt u \<Rightarrow> Some u
      | CarBrandPrompt u \<Rightarrow> Some u
      | CarModelPrompt b u \<Rightarrow> Some u)"

definition failing_llm :: "prompt \<Rightarrow> pystr option" where
  \<comment> \<open>a language model whose every call raises\<close>
  "failing_llm p = None"

definition replying_llm :: "string \<Rightarrow> prompt \<Rightarrow> pystr option" where
  \<comment> \<open>a language model that gives the same reply to every prompt\<close>
  "replying_llm reply p = Some (str reply)"

definition scripted_runtime :: runtime where
  "scripted_runtime =
     \<lparr> llm_invoke = scripted_llm,
       now_year = 2025,
       str_lower = ascii_lower,
       str_upper = ascii_upper,
       str_capitalize = (\<lambda>s. ascii_upper (take 1 s) @ ascii_lower (drop 1 s)),
       unicode_word = (\<lambda>c. False),
       unicode_digit = (\<lambda>c. None) \<rparr>"

definition conversation :: "step \<Rightarrow> PersonalData \<Rightarrow> CarData \<Rightarrow> string \<Rightarrow> GraphState" where
  \<comment> \<open>a stored conversation at the given step, the user's new message appended\<close>
  "conversation st pd cd user_text =
     \<lparr> messages = [HumanMessage (str user_text)],
       conversation_id = str ''c1'',
       current_step = st,
       personal_data = pd,
       car_data = cd,
       personal_data_confirmed = False,
       car_data_confirmed = False,
       eligibility_result = None,
       last_response = Text [] \<rparr>"

definition juan :: PersonalData where
  "juan = \<lparr> full_name = Val (str ''Juan Perez''), birth_year = Val 1990,
            email = Val (str ''juan@x.com'') \<rparr>"

definition corolla :: CarData where
  "corolla = \<lparr> brand = Val (str ''Toyota''), model = Val (str ''Corolla''), year = Val 2020,
               mileage = Val 45000 \<rparr>"

definition corolla_without_mileage :: CarData where
  "corolla_without_mileage = corolla\<lparr>mileage := PyNone\<rparr>"

definition corolla_zero_mileage :: CarData where
  \<comment> \<open>a car that has not been driven yet\<close>
  "corolla_zero_mileage = corolla\<lparr>mileage := Val 0\<rparr>"

definition juan_result :: EligibilityResult where
  "juan_result = evaluate_eligibility 2025 1990 2020 45000"

definition unset_personal :: PersonalData where
  \<comment> \<open>\<open>PersonalData().model_dump()\<close>\<close>
  "unset_personal = \<lparr> full_name = PyNone, birth_year = PyNone, email = PyNone \<rparr>"

definition unset_car :: CarData where
  \<comment> \<open>\<open>CarData().model_dump()\<close>\<close>
  "unset_car = \<lparr> brand = PyNone, model = PyNone, year = PyNone, mileage = PyNone \<rparr>"

section \<open>Properties of the eligibility rule\<close>

lemma startswith_check_pass [simp]: "startswith (check_mark @ s) check_mark"
  by (simp add: startswith_def check_mark_def)

lemma startswith_check_El [simp]: "\<not> startswith (str (CHR ''E'' # t) @ s) check_mark"
  by (simp add: startswith_def check_mark_def str_def)

text \<open>
  C1. For all integers \<open>birth_year\<close>, \<open>car_year\<close>, \<open>mileage\<close> (and any current year),
  \<open>evaluate_eligibility\<close> reports eligible exactly when the age is at least 18, the car
  year at least 2015 and the mileage below 100000; the reasons list has exactly three
  entries, in the order age, car year, mileage, and an entry starts with the check mark
  exactly when its criterion passes.
\<close>

theorem evaluate_eligibility_rule:
  "is_eligible (evaluate_eligibility cy b c m)
     = (cy - b \<ge> 18 \<and> c \<ge> 2015 \<and> m < 100000)
   \<and> length (reasons (evaluate_eligibility cy b c m)) = 3
   \<and> startswith (reasons (evaluate_eligibility cy b c m) ! 0) check_mark = (cy - b \<ge> 18)
   \<and> startswith (reasons (evaluate_eligibility cy b c m) ! 1) check_mark = (c \<ge> 2015)
   \<and> startswith (reasons (evaluate_eligibility cy b c m) ! 2) check_mark = (m < 100000)"
  by (simp add: evaluate_eligibility_def Let_def)

section \<open>Containment and trimming\<close>

text \<open>
  The nodes test the trimmed lowercased text; no token starts or ends with whitespace,
  so trimming does not change what the text contains.
\<close>

lemma startswith_prefix: "startswith s p = prefix p s"
  by (auto simp: startswith_def prefix_def) (metis append_eq_conv_conj)

lemma contains_sublist: "contains n h = sublist n h"
  by (induction h) (auto simp: startswith_prefix sublist_Cons_right)

lemma sublist_dropWhile:
  assumes "t \<noteq> []" and "\<not> P (hd t)"
  shows "sublist t (dropWhile P l) = sublist t l"
  using assms
proof (induction l)
  case Nil
  then show ?case by simp
next
  case (Cons c cs)
  show ?case
  proof (cases "P c")
    case True
    with Cons.prems have "\<not> prefix t (c # cs)"
      by (cases t) auto
    with True Cons show ?thesis by (simp add: sublist_Cons_right)
  next
    case False
    then show ?thesis by simp
  qed
qed

lemma contains_strip:
  assumes "t \<noteq> []" and "\<not> is_space (hd t)" and "\<not> is_space (last t)"
  shows "contains t (strip l) = contains t l"
proof -
  have r: "rev t \<noteq> []" "\<not> is_space (hd (rev t))"
    using assms by (simp_all add: hd_rev)
  have "sublist t (strip l) = sublist (rev t) (dropWhile is_space (rev (dropWhile is_space l)))"
    unfolding strip_def by (metis sublist_rev rev_rev_ident)
  also have "\<dots> = sublist (rev t) (rev (dropWhile is_space l))"
    using r by (rule sublist_dropWhile [where P = is_space])
  also have "\<dots> = sublist t (dropWhile is_space l)"
    by simp
  also have "\<dots> = sublist t l"
    using assms(1,2) by (rule sublist_dropWhile [where P = is_space])
  finally show ?thesis by (simp add: contains_sublist)
qed

lemma token_strip:
  "contains (str ''s'' @ [0xED]) (strip l) = contains (str ''s'' @ [0xED]) l"
  "contains (str ''si'') (strip l) = contains (str ''si'') l"
  "contains (str ''correcto'') (strip l) = contains (str ''correcto'') l"
  "contains (str ''yes'') (strip l) = contains (str ''yes'') l"
  "contains (str ''ok'') (strip l) = contains (str ''ok'') l"
  "contains (str ''no'') (strip l) = contains (str ''no'') l"
  by (rule contains_strip; simp add: str_def is_space_def)+

lemma affirmative_iff:
  "affirmative l = (contains (str ''s'' @ [0xED]) l \<or> contains (str ''si'') l
     \<or> contains (str ''correcto'') l \<or> contains (str ''yes'') l \<or> contains (str ''ok'') l)"
  by (simp add: affirmative_def affirmative_tokens_def)

section \<open>The confirmation nodes by cases\<close>

lemma last_user_input_human:
  "messages s = ms @ [HumanMessage user_text] \<Longrightarrow> last_user_input s = user_text"
  by (simp add: last_user_input_def)

lemma confirm_personal_cases:
  assumes "messages s = ms @ [HumanMessage user_text]"
  shows "confirm_personal_data_node rt s =
     (if affirmative (str_lower rt user_text) then
        (case first_name (personal_data s) of
           Inl e \<Rightarrow> Inl e
         | Inr fn \<Rightarrow> Inr (s\<lparr>personal_data_confirmed := True, current_step := COLLECTING_CAR_DATA,
                             last_response := PersonalDataConfirmed fn\<rparr>))
      else if contains (str ''no'') (str_lower rt user_text) then
        Inr (s\<lparr>personal_data := empty_personal, current_step := COLLECTING_PERSONAL_DATA,
               last_response := PersonalDataReset\<rparr>)
      else Inr (s\<lparr>last_response := InvalidConfirmation\<rparr>))"
  using assms
  by (simp add: confirm_personal_data_node_def Let_def last_user_input_human affirmative_iff
        token_strip)

lemma confirm_car_cases:
  assumes "messages s = ms @ [HumanMessage user_text]"
  shows "confirm_car_data_node rt s =
     (if affirmative (str_lower rt user_text) then
        Inr (s\<lparr>car_data_confirmed := True, current_step := EVALUATING_ELIGIBILITY\<rparr>)
      else if contains (str ''no'') (str_lower rt user_text) then
        (case first_name (personal_data s) of
           Inl e \<Rightarrow> Inl e
         | Inr fn \<Rightarrow> Inr (s\<lparr>car_data := empty_car, current_step := COLLECTING_CAR_DATA,
                             last_response := CarDataReset fn\<rparr>))
      else Inr (s\<lparr>last_response := InvalidCarConfirmation\<rparr>))"
  using assms
  by (simp add: confirm_car_data_node_def Let_def last_user_input_human affirmative_iff
        token_strip)

section \<open>The confirmation flags through the nodes\<close>

lemma greeting_flags:
  "greeting_node s = Inr s' \<Longrightarrow>
     personal_data_confirmed s' = personal_data_confirmed s
     \<and> car_data_confirmed s' = car_data_confirmed s"
  by (auto simp: greeting_node_def)

lemma collect_personal_flags:
  "collect_personal_data_node rt s = Inr s' \<Longrightarrow>
     personal_data_confirmed s' = personal_data_confirmed s
     \<and> car_data_confirmed s' = car_data_confirmed s"
  by (auto simp: collect_personal_data_node_def Let_def
      split: if_splits option.splits prod.splits list.splits)

lemma collect_car_flags:
  "collect_car_data_node rt s = Inr s' \<Longrightarrow>
     personal_data_confirmed s' = personal_data_confirmed s
     \<and> car_data_confirmed s' = car_data_confirmed s"
  by (auto simp: collect_car_data_node_def Let_def
      split: if_splits option.splits prod.splits list.splits)

lemma confirm_personal_flags:
  "confirm_personal_data_node rt s = Inr s' \<Longrightarrow>
     (personal_data_confirmed s \<longrightarrow> personal_data_confirmed s')
     \<and> car_data_confirmed s' = car_data_confirmed s"
  by (auto simp: confirm_personal_data_node_def Let_def split: if_splits sum.splits)

lemma confirm_car_flags:
  "confirm_car_data_node rt s = Inr s' \<Longrightarrow>
     personal_data_confirmed s' = personal_data_confirmed s
     \<and> (car_data_confirmed s \<longrightarrow> car_data_confirmed s')"
  by (auto simp: confirm_car_data_node_def Let_def split: if_splits sum.splits)

lemma evaluate_flags:
  "evaluate_eligibility_node rt s = Inr s' \<Longrightarrow>
     personal_data_confirmed s' = personal_data_confirmed s
     \<and> car_data_confirmed s' = car_data_confirmed s"
  by (auto simp: evaluate_eligibility_node_def Let_def split: option.splits)

lemma completed_flags:
  "completed_node s = Inr s' \<Longrightarrow>
     personal_data_confirmed s' = personal_data_confirmed s
     \<and> car_data_confirmed s' = car_data_confirmed s"
  by (auto simp: completed_node_def split: sum.splits)

lemma invoke_flags:
  assumes "invoke rt s = Inr s'"
  shows "(personal_data_confirmed s \<longrightarrow> personal_data_confirmed s')
     \<and> (car_data_confirmed s \<longrightarrow> car_data_confirmed s')"
proof (cases "current_step s")
  case CONFIRMING_CAR_DATA
  with assms obtain s1 where s1: "confirm_car_data_node rt s = Inr s1"
    by (auto simp: invoke_def split: sum.splits)
  note f1 = confirm_car_flags [OF s1]
  show ?thesis
  proof (cases "after_confirm_car_data s1 = ''evaluate''")
    case True
    with assms CONFIRMING_CAR_DATA s1 obtain s2
      where s2: "evaluate_eligibility_node rt s1 = Inr s2" and s3: "completed_node s2 = Inr s'"
      by (auto simp: invoke_def split: sum.splits)
    from f1 evaluate_flags [OF s2] completed_flags [OF s3] show ?thesis by simp
  next
    case False
    with assms CONFIRMING_CAR_DATA s1 have "s' = s1" by (simp add: invoke_def)
    with f1 show ?thesis by simp
  qed
next
  case EVALUATING_ELIGIBILITY
  with assms obtain s2
    where s2: "evaluate_eligibility_node rt s = Inr s2" and s3: "completed_node s2 = Inr s'"
    by (auto simp: invoke_def split: sum.splits)
  from evaluate_flags [OF s2] completed_flags [OF s3] show ?thesis by simp
qed (use assms in \<open>auto simp: invoke_def dest: greeting_flags collect_personal_flags
       collect_car_flags confirm_personal_flags completed_flags\<close>)

section \<open>Evaluating the examples\<close>

lemma first_name_juan: "first_name juan = Inr (str ''Juan'')"
  by (simp add: first_name_def juan_def dict_get_default_def split_def str_def is_space_def)

lemma conversation_messages: "messages (conversation st pd cd u) = [] @ [HumanMessage (str u)]"
  by (simp add: conversation_def)

lemma conversation_personal [simp]: "personal_data (conversation st pd cd u) = pd"
  by (simp add: conversation_def)

lemma affirmative_no_si: "affirmative (ascii_lower (str ''no, si''))"
  by (simp add: affirmative_iff ascii_lower_def str_def startswith_def in_range_def)

lemma negative_No: "negative (ascii_lower (str ''No''))"
  by (simp add: negative_def affirmative_iff ascii_lower_def str_def startswith_def in_range_def)

lemma neither_tal_vez: "\<not> affirmative (ascii_lower (str ''tal vez'')) \<and> \<not> contains (str ''no'') (ascii_lower (str ''tal vez''))"
  by (simp add: negative_def affirmative_iff ascii_lower_def str_def startswith_def in_range_def)

section \<open>Classification of a confirmation\<close>

text \<open>
  C4. In both confirmation nodes, a user input whose lowercased text contains one of
  the affirmative tokens takes the affirmative branch, whether or not it also contains
  \<open>no\<close>; an input that contains \<open>no\<close> and none of the affirmative tokens takes the
  negative branch; an input that contains none of the tokens takes neither, and the
  node then changes \<open>last_response\<close> only, so the step stays. The node tests the trimmed
  lowercased text, which contains the same tokens.
\<close>

theorem confirmation_classification:
  assumes "messages s = ms @ [HumanMessage user_text]"
  shows
    "(affirmative (str_lower rt user_text) \<longrightarrow>
        confirm_personal_data_node rt s =
          (case first_name (personal_data s) of
             Inl e \<Rightarrow> Inl e
           | Inr fn \<Rightarrow> Inr (s\<lparr>personal_data_confirmed := True,
                               current_step := COLLECTING_CAR_DATA,
                               last_response := PersonalDataConfirmed fn\<rparr>))
        \<and> confirm_car_data_node rt s =
            Inr (s\<lparr>car_data_confirmed := True, current_step := EVALUATING_ELIGIBILITY\<rparr>))
     \<and> (negative (str_lower rt user_text) \<longrightarrow>
        confirm_personal_data_node rt s =
          Inr (s\<lparr>personal_data := empty_personal, current_step := COLLECTING_PERSONAL_DATA,
                 last_response := PersonalDataReset\<rparr>)
        \<and> confirm_car_data_node rt s =
            (case first_name (personal_data s) of
               Inl e \<Rightarrow> Inl e
             | Inr fn \<Rightarrow> Inr (s\<lparr>car_data := empty_car, current_step := COLLECTING_CAR_DATA,
                                 last_response := CarDataReset fn\<rparr>)))
     \<and> (\<not> affirmative (str_lower rt user_text) \<and> \<not> contains (str ''no'') (str_lower rt user_text) \<longrightarrow>
        confirm_personal_data_node rt s = Inr (s\<lparr>last_response := InvalidConfirmation\<rparr>)
        \<and> confirm_car_data_node rt s = Inr (s\<lparr>last_response := InvalidCarConfirmation\<rparr>)
        \<and> current_step (s\<lparr>last_response := InvalidConfirmation\<rparr>) = current_step s
        \<and> current_step (s\<lparr>last_response := InvalidCarConfirmation\<rparr>) = current_step s)"
  by (simp add: confirm_personal_cases [OF assms] confirm_car_cases [OF assms] negative_def)

theorem confirmation_classification_witness:
  "confirm_personal_data_node scripted_runtime
       (conversation CONFIRMING_PERSONAL_DATA juan unset_car ''no, si'') =
     Inr ((conversation CONFIRMING_PERSONAL_DATA juan unset_car ''no, si'')
            \<lparr>personal_data_confirmed := True, current_step := COLLECTING_CAR_DATA,
             last_response := PersonalDataConfirmed (str ''Juan'')\<rparr>)
   \<and> confirm_car_data_node scripted_runtime
       (conversation CONFIRMING_CAR_DATA juan corolla ''No'') =
     Inr ((conversation CONFIRMING_CAR_DATA juan corolla ''No'')
            \<lparr>car_data := empty_car, current_step := COLLECTING_CAR_DATA,
             last_response := CarDataReset (str ''Juan'')\<rparr>)
   \<and> confirm_car_data_node scripted_runtime
       (conversation CONFIRMING_CAR_DATA juan corolla ''tal vez'') =
     Inr ((conversation CONFIRMING_CAR_DATA juan corolla ''tal vez'')
            \<lparr>last_response := InvalidCarConfirmation\<rparr>)"
  using
    confirmation_classification [where rt = scripted_runtime and ms = "[]"
      and s = "conversation CONFIRMING_PERSONAL_DATA juan unset_car ''no, si''"
      and user_text = "str ''no, si''"]
    confirmation_classification [where rt = scripted_runtime and ms = "[]"
      and s = "conversation CONFIRMING_CAR_DATA juan corolla ''No''"
      and user_text = "str ''No''"]
    confirmation_classification [where rt = scripted_runtime and ms = "[]"
      and s = "conversation CONFIRMING_CAR_DATA juan corolla ''tal vez''"
      and user_text = "str ''tal vez''"]
    affirmative_no_si negative_No neither_tal_vez
  by (simp add: scripted_runtime_def first_name_juan conversation_messages)

section \<open>Rejection of the personal data\<close>

lemma negative_no: "negative (ascii_lower (str ''no''))"
  by (simp add: negative_def affirmative_iff ascii_lower_def str_def startswith_def in_range_def)

text \<open>
  C3, as stated, fails: the negative branch of \<open>_confirm_personal_data_node\<close> writes
  \<open>personal_data\<close>, \<open>current_step\<close> and \<open>last_response\<close> only, so a record whose
  \<open>personal_data_confirmed\<close> is true keeps it true after the rejection.
\<close>

theorem personal_rejection_flag_counterexample:
  "current_step ((conversation CONFIRMING_PERSONAL_DATA juan unset_car ''no'')
       \<lparr>personal_data_confirmed := True\<rparr>) = CONFIRMING_PERSONAL_DATA
   \<and> negative (str_lower scripted_runtime (str ''no''))
   \<and> (case invoke scripted_runtime
             ((conversation CONFIRMING_PERSONAL_DATA juan unset_car ''no'')
                \<lparr>personal_data_confirmed := True\<rparr>) of
         Inl e \<Rightarrow> None
       | Inr s' \<Rightarrow> Some (personal_data_confirmed s')) = Some True"
  using negative_no
    confirm_personal_cases [where rt = scripted_runtime and ms = "[]"
      and s = "(conversation CONFIRMING_PERSONAL_DATA juan unset_car ''no'')
                 \<lparr>personal_data_confirmed := True\<rparr>"
      and user_text = "str ''no''"]
  by (simp add: invoke_def scripted_runtime_def conversation_def negative_def)

text \<open>
  C3, amended. For every record in step \<open>CONFIRMING_PERSONAL_DATA\<close> and every input
  classified as negative, the turn returns a record with \<open>personal_data\<close> empty and step
  \<open>COLLECTING_PERSONAL_DATA\<close>, the response is the personal-data-reset one, and
  \<open>personal_data_confirmed\<close> keeps its prior value, whatever the prior \<open>personal_data\<close>.
\<close>

theorem personal_rejection_resets_data:
  assumes "current_step s = CONFIRMING_PERSONAL_DATA"
    and "messages s = ms @ [HumanMessage user_text]"
    and "negative (str_lower rt user_text)"
  shows "\<exists>s'. invoke rt s = Inr s'
     \<and> personal_data s' = empty_personal
     \<and> current_step s' = COLLECTING_PERSONAL_DATA
     \<and> last_response s' = PersonalDataReset
     \<and> personal_data_confirmed s' = personal_data_confirmed s"
  using assms
  by (simp add: invoke_def confirm_personal_cases [OF assms(2)] negative_def)

theorem personal_rejection_resets_data_witness:
  "\<exists>s'. invoke scripted_runtime (conversation CONFIRMING_PERSONAL_DATA juan unset_car ''no'') = Inr s'
     \<and> personal_data s' = empty_personal
     \<and> current_step s' = COLLECTING_PERSONAL_DATA
     \<and> last_response s' = PersonalDataReset
     \<and> personal_data_confirmed s' = False"
  using negative_no
    personal_rejection_resets_data [where rt = scripted_runtime and ms = "[]"
      and s = "conversation CONFIRMING_PERSONAL_DATA juan unset_car ''no''"
      and user_text = "str ''no''"]
  by (simp add: scripted_runtime_def conversation_def)

section \<open>Monotone confirmation flags\<close>

text \<open>
  No step handler, and no turn of the graph, changes \<open>personal_data_confirmed\<close> or
  \<open>car_data_confirmed\<close> from true to false. The negative branch of the personal
  confirmation handler empties \<open>personal_data\<close>, reverts the step and leaves both flags
  as they were. The negative branch of the car confirmation handler does the same for
  \<open>car_data\<close> when the first name can be read: it reads the name for its response
  before it returns.
\<close>

lemma confirmation_flags_monotone:
  "(\<forall>h \<in> set (handlers rt). \<forall>s s'. h s = Inr s' \<longrightarrow>
       (personal_data_confirmed s \<longrightarrow> personal_data_confirmed s')
       \<and> (car_data_confirmed s \<longrightarrow> car_data_confirmed s'))
   \<and> (\<forall>s s'. invoke rt s = Inr s' \<longrightarrow>
       (personal_data_confirmed s \<longrightarrow> personal_data_confirmed s')
       \<and> (car_data_confirmed s \<longrightarrow> car_data_confirmed s'))
   \<and> (\<forall>s ms user_text.
         messages s = ms @ [HumanMessage user_text] \<and> negative (str_lower rt user_text) \<longrightarrow>
         (\<exists>s'. confirm_personal_data_node rt s = Inr s'
            \<and> personal_data s' = empty_personal
            \<and> current_step s' = COLLECTING_PERSONAL_DATA
            \<and> personal_data_confirmed s' = personal_data_confirmed s
            \<and> car_data_confirmed s' = car_data_confirmed s)
         \<and> (\<forall>fn. first_name (personal_data s) = Inr fn \<longrightarrow>
              (\<exists>s'. confirm_car_data_node rt s = Inr s'
                 \<and> car_data s' = empty_car
                 \<and> current_step s' = COLLECTING_CAR_DATA
                 \<and> personal_data_confirmed s' = personal_data_confirmed s
                 \<and> car_data_confirmed s' = car_data_confirmed s)))"
proof (intro conjI)
  show "\<forall>h \<in> set (handlers rt). \<forall>s s'. h s = Inr s' \<longrightarrow>
       (personal_data_confirmed s \<longrightarrow> personal_data_confirmed s')
       \<and> (car_data_confirmed s \<longrightarrow> car_data_confirmed s')"
    using greeting_flags collect_personal_flags confirm_personal_flags collect_car_flags
      confirm_car_flags evaluate_flags completed_flags
    by (simp add: handlers_def)
  show "\<forall>s s'. invoke rt s = Inr s' \<longrightarrow>
       (personal_data_confirmed s \<longrightarrow> personal_data_confirmed s')
       \<and> (car_data_confirmed s \<longrightarrow> car_data_confirmed s')"
    using invoke_flags by blast
  show "\<forall>s ms user_text.
         messages s = ms @ [HumanMessage user_text] \<and> negative (str_lower rt user_text) \<longrightarrow>
         (\<exists>s'. confirm_personal_data_node rt s = Inr s'
            \<and> personal_data s' = empty_personal
            \<and> current_step s' = COLLECTING_PERSONAL_DATA
            \<and> personal_data_confirmed s' = personal_data_confirmed s
            \<and> car_data_confirmed s' = car_data_confirmed s)
         \<and> (\<forall>fn. first_name (personal_data s) = Inr fn \<longrightarrow>
              (\<exists>s'. confirm_car_data_node rt s = Inr s'
                 \<and> car_data s' = empty_car
                 \<and> current_step s' = COLLECTING_CAR_DATA
                 \<and> personal_data_confirmed s' = personal_data_confirmed s
                 \<and> car_data_confirmed s' = car_data_confirmed s))"
    by (simp add: confirm_personal_cases confirm_car_cases negative_def)
qed

text \<open>
  C10 at a concrete record: in step \<open>CONFIRMING_CAR_DATA\<close> with the personal data of
  \<open>PersonalData()\<close> and the input \<open>no\<close>, the negative branch of
  \<open>_confirm_car_data_node\<close> raises on \<open>None.split()\<close>; the car data are not emptied and
  the step is not reverted.
\<close>

theorem car_rejection_without_name_raises:
  "negative (str_lower scripted_runtime (str ''no''))
   \<and> confirm_car_data_node scripted_runtime
       (conversation CONFIRMING_CAR_DATA unset_personal corolla ''no'') = Inl AttributeError
   \<and> invoke scripted_runtime
       (conversation CONFIRMING_CAR_DATA unset_personal corolla ''no'') = Inl AttributeError"
proof -
  let ?s = "conversation CONFIRMING_CAR_DATA unset_personal corolla ''no''"
  have n: "negative (str_lower scripted_runtime (str ''no''))"
    using negative_no by (simp add: scripted_runtime_def)
  have f: "first_name unset_personal = Inl AttributeError"
    by (simp add: first_name_def dict_get_default_def unset_personal_def)
  have c: "confirm_car_data_node scripted_runtime ?s = Inl AttributeError"
    using n by (simp add: confirm_car_cases [OF conversation_messages] negative_def f)
  have st: "current_step ?s = CONFIRMING_CAR_DATA" by (simp add: conversation_def)
  have "invoke scripted_runtime ?s = Inl AttributeError"
    by (simp add: invoke_def st c)
  with n c show ?thesis by blast
qed

section \<open>The safety filter fails open\<close>

lemma unsafe_marker_not_safe:
  "startswith r (str ''INSEGURO'') \<Longrightarrow> \<not> startswith r (str ''SEGURO'')"
  by (cases r) (auto simp: startswith_def str_def)

text \<open>
  C7. For every input text: when the call to the language model raises,
  \<open>_validate_input_safety\<close> returns \<open>(True, None)\<close>; it returns the same when the reply
  starts with neither marker; and it returns an unsafe classification only when the
  reply starts with the unsafe marker \<open>INSEGURO\<close> (and then always). The markers are
  looked for in the reply as the code reads it, trimmed and in upper case.
\<close>

theorem safety_filter_fail_open:
  "(llm_invoke rt (SafetyPrompt user_text) = None \<longrightarrow>
       validate_input_safety rt user_text = (True, None))
   \<and> (\<forall>reply. llm_invoke rt (SafetyPrompt user_text) = Some reply
         \<and> \<not> startswith (str_upper rt (strip reply)) (str ''SEGURO'')
         \<and> \<not> startswith (str_upper rt (strip reply)) (str ''INSEGURO'') \<longrightarrow>
       validate_input_safety rt user_text = (True, None))
   \<and> (\<not> fst (validate_input_safety rt user_text) \<longrightarrow>
       (\<exists>reply. llm_invoke rt (SafetyPrompt user_text) = Some reply
          \<and> startswith (str_upper rt (strip reply)) (str ''INSEGURO'')))
   \<and> (\<forall>reply. llm_invoke rt (SafetyPrompt user_text) = Some reply
         \<and> startswith (str_upper rt (strip reply)) (str ''INSEGURO'') \<longrightarrow>
       \<not> fst (validate_input_safety rt user_text))"
  by (auto simp: validate_input_safety_def Let_def dest: unsafe_marker_not_safe
      split: option.splits if_splits)

theorem safety_filter_fail_open_witness:
  "validate_input_safety (scripted_runtime\<lparr>llm_invoke := failing_llm\<rparr>) (str ''Pulse'')
     = (True, None)
   \<and> validate_input_safety (scripted_runtime\<lparr>llm_invoke := replying_llm ''tal vez''\<rparr>)
       (str ''Pulse'') = (True, None)
   \<and> \<not> fst (validate_input_safety
              (scripted_runtime\<lparr>llm_invoke := replying_llm '' inseguro|insulto''\<rparr>)
              (str ''Pulse''))"
  using
    safety_filter_fail_open [where rt = "scripted_runtime\<lparr>llm_invoke := failing_llm\<rparr>"
      and user_text = "str ''Pulse''"]
    safety_filter_fail_open [where rt = "scripted_runtime\<lparr>llm_invoke := replying_llm ''tal vez''\<rparr>"
      and user_text = "str ''Pulse''"]
    safety_filter_fail_open
      [where rt = "scripted_runtime\<lparr>llm_invoke := replying_llm '' inseguro|insulto''\<rparr>"
      and user_text = "str ''Pulse''"]
  by (simp add: failing_llm_def replying_llm_def scripted_runtime_def ascii_upper_def strip_def
        is_space_def str_def startswith_def in_range_def)

section \<open>The completed step\<close>

text \<open>
  For a record in step \<open>COMPLETED\<close> whose first name can be read, a turn returns the
  record with \<open>last_response\<close> set to the announcement that the stored
  \<open>eligibility_result\<close> and the first name determine, and nothing else changed; a further
  turn on the result, whatever messages have been appended and whatever the runtime,
  returns the same announcement and again changes nothing else. The announcement is the
  call of \<open>ResponseGenerator.eligibility_result\<close>; its wording is not modelled.
\<close>

lemma completed_idempotent:
  assumes "current_step s = COMPLETED"
    and "first_name (personal_data s) = Inr fn"
  shows "invoke rt s =
       Inr (s\<lparr>last_response := eligibility_result_response (eligibility_result s) fn\<rparr>)
     \<and> invoke rt'
         (s\<lparr>messages := ms,
            last_response := eligibility_result_response (eligibility_result s) fn\<rparr>) =
       Inr (s\<lparr>messages := ms,
              last_response := eligibility_result_response (eligibility_result s) fn\<rparr>)"
  using assms by (simp add: invoke_def completed_node_def)

text \<open>
  C9 at a concrete record: in step \<open>COMPLETED\<close> with the personal data of
  \<open>PersonalData()\<close>, where \<open>full_name\<close> is \<open>None\<close>, \<open>_completed_node\<close> raises on
  \<open>None.split()\<close> and announces nothing. The fallback \<open>"Usuario"\<close> of
  \<open>.get("full_name", "Usuario")\<close> applies only when the key is missing from the dictionary:
  then the turn announces to \<open>Usuario\<close>.
\<close>

theorem completed_without_name_raises:
  "current_step ((conversation COMPLETED unset_personal corolla ''gracias'')
       \<lparr>eligibility_result := Some juan_result\<rparr>) = COMPLETED
   \<and> invoke scripted_runtime
       ((conversation COMPLETED unset_personal corolla ''gracias'')
          \<lparr>eligibility_result := Some juan_result\<rparr>) = Inl AttributeError
   \<and> invoke scripted_runtime
       ((conversation COMPLETED empty_personal corolla ''gracias'')
          \<lparr>eligibility_result := Some juan_result\<rparr>) =
     Inr ((conversation COMPLETED empty_personal corolla ''gracias'')
            \<lparr>eligibility_result := Some juan_result,
             last_response := Eligible (str ''Usuario'')\<rparr>)"
proof -
  have u: "split (str ''Usuario'') = [str ''Usuario'']"
    by (simp add: split_def str_def is_space_def)
  have e: "is_eligible juan_result"
    by (simp add: juan_result_def evaluate_eligibility_def)
  show ?thesis
    by (simp add: invoke_def completed_node_def first_name_def dict_get_default_def
        conversation_def unset_personal_def empty_personal_def u e
        eligibility_result_response_def)
qed

section \<open>From the confirmation of the car to the completed step\<close>

lemma truthy_int_Some: "(truthy_int x = Some i) = (x = Some i \<and> i \<noteq> 0)"
  by (auto simp: truthy_int_def split: option.splits)

lemma dict_get_Some: "(dict_get x = Some v) = (x = Val v)"
  by (cases x) (simp_all add: dict_get_def)

text \<open>
  For a record in step \<open>CONFIRMING_CAR_DATA\<close> in which every field is set and is neither
  empty nor zero (what \<open>_should_confirm_personal_data\<close> and \<open>_should_confirm_car_data\<close>
  test) and whose first name can be read, one turn with an affirmative input returns a
  record in step \<open>COMPLETED\<close> with \<open>car_data_confirmed\<close> true and \<open>eligibility_result\<close>
  set to the result of the rule on the stored birth year, car year and mileage, and the
  response of the turn is the eligibility announcement.
\<close>

lemma confirmed_car_reaches_completed:
  assumes "current_step s = CONFIRMING_CAR_DATA"
    and "messages s = ms @ [HumanMessage user_text]"
    and "affirmative (str_lower rt user_text)"
    and "should_confirm_personal_data s = ''confirm''"
    and "should_confirm_car_data s = ''confirm''"
    and "first_name (personal_data s) = Inr fn"
  shows "\<exists>s' b c m. invoke rt s = Inr s'
     \<and> current_step s' = COMPLETED
     \<and> car_data_confirmed s'
     \<and> birth_year (personal_data s) = Val b \<and> year (car_data s) = Val c
     \<and> mileage (car_data s) = Val m
     \<and> eligibility_result s' = Some (evaluate_eligibility (now_year rt) b c m)
     \<and> last_response s' =
         eligibility_result_response (Some (evaluate_eligibility (now_year rt) b c m)) fn"
proof -
  from assms(4) obtain b where b: "birth_year (personal_data s) = Val b" "b \<noteq> 0"
    by (auto simp: should_confirm_personal_data_def Let_def truthy_int_Some dict_get_Some
        split: if_splits)
  from assms(5) obtain c m where c: "year (car_data s) = Val c" "c \<noteq> 0"
    and m: "mileage (car_data s) = Val m" "m \<noteq> 0"
    by (auto simp: should_confirm_car_data_def Let_def truthy_int_Some dict_get_Some
        split: if_splits)
  let ?s1 = "s\<lparr>car_data_confirmed := True, current_step := EVALUATING_ELIGIBILITY\<rparr>"
  have 1: "confirm_car_data_node rt s = Inr ?s1"
    using assms(3) by (simp add: confirm_car_cases [OF assms(2)])
  let ?s2 = "?s1\<lparr>eligibility_result := Some (evaluate_eligibility (now_year rt) b c m),
                  current_step := COMPLETED\<rparr>"
  have 2: "evaluate_eligibility_node rt ?s1 = Inr ?s2"
    using b c m by (simp add: evaluate_eligibility_node_def dict_get_def truthy_int_def)
  have 3: "completed_node ?s2 =
      Inr (?s2\<lparr>last_response :=
             eligibility_result_response (Some (evaluate_eligibility (now_year rt) b c m)) fn\<rparr>)"
    using assms(6) by (simp add: completed_node_def)
  have "invoke rt s =
      Inr (?s2\<lparr>last_response :=
             eligibility_result_response (Some (evaluate_eligibility (now_year rt) b c m)) fn\<rparr>)"
    using assms(1) 1 2 3 by (simp add: invoke_def after_confirm_car_data_def)
  with b c m show ?thesis by simp
qed

lemma affirmative_si: "affirmative (ascii_lower (str ''si''))"
  by (simp add: affirmative_iff ascii_lower_def str_def startswith_def in_range_def)

text \<open>
  C5 at a concrete record: in step \<open>CONFIRMING_CAR_DATA\<close> with complete personal data
  and a car whose stored mileage is 0, the affirmative input \<open>si\<close> confirms the car, but
  \<open>_evaluate_eligibility_node\<close> takes the mileage 0 for missing
  (\<open>not all([birth_year, car_year, mileage])\<close>): the turn ends in step
  \<open>EVALUATING_ELIGIBILITY\<close> with no result and an error message.
\<close>

theorem zero_mileage_stops_at_evaluating:
  "should_confirm_personal_data (conversation CONFIRMING_CAR_DATA juan corolla_zero_mileage ''si'')
     = ''confirm''
   \<and> mileage (car_data (conversation CONFIRMING_CAR_DATA juan corolla_zero_mileage ''si'')) = Val 0
   \<and> invoke scripted_runtime (conversation CONFIRMING_CAR_DATA juan corolla_zero_mileage ''si'') =
     Inr ((conversation CONFIRMING_CAR_DATA juan corolla_zero_mileage ''si'')
            \<lparr>car_data_confirmed := True, current_step := EVALUATING_ELIGIBILITY,
             last_response := Text (str ''Error al evaluar la elegibilidad.'')\<rparr>)"
proof -
  let ?s = "conversation CONFIRMING_CAR_DATA juan corolla_zero_mileage ''si''"
  let ?s1 = "?s\<lparr>car_data_confirmed := True, current_step := EVALUATING_ELIGIBILITY\<rparr>"
  let ?s2 = "?s1\<lparr>last_response :=
               Text (str ''Error: Faltan datos para evaluar la elegibilidad.'')\<rparr>"
  have p: "should_confirm_personal_data ?s = ''confirm''"
    by (simp add: should_confirm_personal_data_def conversation_def juan_def dict_get_def
        truthy_str_def truthy_int_def str_def)
  have m: "mileage (car_data ?s) = Val 0"
    by (simp add: conversation_def corolla_zero_mileage_def)
  have a: "affirmative (str_lower scripted_runtime (str ''si''))"
    using affirmative_si by (simp add: scripted_runtime_def)
  have 1: "confirm_car_data_node scripted_runtime ?s = Inr ?s1"
    using a by (simp add: confirm_car_cases [OF conversation_messages])
  have 2: "evaluate_eligibility_node scripted_runtime ?s1 = Inr ?s2"
    by (simp add: evaluate_eligibility_node_def conversation_def corolla_zero_mileage_def
        corolla_def juan_def dict_get_def truthy_int_def)
  have 3: "completed_node ?s2 =
      Inr (?s\<lparr>car_data_confirmed := True, current_step := EVALUATING_ELIGIBILITY,
              last_response := Text (str ''Error al evaluar la elegibilidad.'')\<rparr>)"
    by (simp add: completed_node_def first_name_juan eligibility_result_response_def)
       (simp add: conversation_def)
  have st: "current_step ?s = CONFIRMING_CAR_DATA" by (simp add: conversation_def)
  have "invoke scripted_runtime ?s =
      Inr (?s\<lparr>car_data_confirmed := True, current_step := EVALUATING_ELIGIBILITY,
              last_response := Text (str ''Error al evaluar la elegibilidad.'')\<rparr>)"
    by (simp add: invoke_def st 1 2 3 after_confirm_car_data_def)
  with p m show ?thesis by blast
qed

section \<open>Evaluation with missing data\<close>

text \<open>
  A record in step \<open>EVALUATING_ELIGIBILITY\<close> with a missing birth year, car year or
  mileage: \<open>_evaluate_eligibility_node\<close> stores no result, keeps the step and sets the
  missing-data message, and the edge to \<open>completed\<close> then runs \<open>_completed_node\<close>, which
  reads the first name and replaces the message.
\<close>

lemma evaluating_with_missing_data:
  assumes "current_step s = EVALUATING_ELIGIBILITY"
    and "truthy_int (dict_get (birth_year (personal_data s))) = None
       \<or> truthy_int (dict_get (year (car_data s))) = None
       \<or> truthy_int (dict_get (mileage (car_data s))) = None"
  shows "invoke rt s =
     (case first_name (personal_data s) of
        Inl e \<Rightarrow> Inl e
      | Inr fn \<Rightarrow>
          Inr (s\<lparr>last_response := eligibility_result_response (eligibility_result s) fn\<rparr>))"
  using assms
  by (auto simp: invoke_def evaluate_eligibility_node_def completed_node_def Let_def
      split: option.splits sum.splits)


text \<open>
  C8 at a concrete record (Juan's personal data, no car data): the evaluation node sets
  the missing-data message, and the turn ends with the message of the completed node
  instead. The step is kept and no result is stored.
\<close>

theorem missing_data_response_overwritten:
  "evaluate_eligibility_node scripted_runtime
       (conversation EVALUATING_ELIGIBILITY juan unset_car ''si'') =
     Inr ((conversation EVALUATING_ELIGIBILITY juan unset_car ''si'')
            \<lparr>last_response := Text (str ''Error: Faltan datos para evaluar la elegibilidad.'')\<rparr>)
   \<and> invoke scripted_runtime (conversation EVALUATING_ELIGIBILITY juan unset_car ''si'') =
     Inr ((conversation EVALUATING_ELIGIBILITY juan unset_car ''si'')
            \<lparr>last_response := Text (str ''Error al evaluar la elegibilidad.'')\<rparr>)
   \<and> str ''Error al evaluar la elegibilidad.''
       \<noteq> str ''Error: Faltan datos para evaluar la elegibilidad.''"
proof -
  let ?s = "conversation EVALUATING_ELIGIBILITY juan unset_car ''si''"
  have e: "evaluate_eligibility_node scripted_runtime ?s =
     Inr (?s\<lparr>last_response := Text (str ''Error: Faltan datos para evaluar la elegibilidad.'')\<rparr>)"
    by (simp add: evaluate_eligibility_node_def conversation_def unset_car_def juan_def
        dict_get_def truthy_int_def)
  have c: "completed_node
       (?s\<lparr>last_response := Text (str ''Error: Faltan datos para evaluar la elegibilidad.'')\<rparr>)
     = Inr (?s\<lparr>last_response := Text (str ''Error al evaluar la elegibilidad.'')\<rparr>)"
    by (simp add: completed_node_def first_name_juan eligibility_result_response_def)
       (simp add: conversation_def)
  have i: "invoke scripted_runtime ?s =
     Inr (?s\<lparr>last_response := Text (str ''Error al evaluar la elegibilidad.'')\<rparr>)"
    using e c by (simp add: invoke_def) (simp add: conversation_def)
  have d: "str ''Error al evaluar la elegibilidad.''
       \<noteq> str ''Error: Faltan datos para evaluar la elegibilidad.''"
    by (simp add: str_def)
  from e i d show ?thesis by blast
qed

section \<open>Collecting the mileage\<close>

text \<open>
  With brand, model and year set and the mileage missing, \<open>_collect_car_data_node\<close>
  stores an extracted mileage and advances exactly when it is non-zero and within
  \<open>[0, 500000]\<close>; otherwise only \<open>last_response\<close> changes. The test
  \<open>if mileage and 0 <= mileage <= 500000\<close> fails for the mileage 0, which Python treats
  as false.
\<close>

lemma collect_mileage_branch:
  assumes "messages s = ms @ [HumanMessage user_text]"
    and "truthy_str (dict_get (brand (car_data s))) \<noteq> None"
    and "truthy_str (dict_get (model (car_data s))) \<noteq> None"
    and "truthy_int (dict_get (year (car_data s))) \<noteq> None"
    and "truthy_int (dict_get (mileage (car_data s))) = None"
  shows "collect_car_data_node rt s =
     (case truthy_int (extract_mileage rt user_text) of
        Some m \<Rightarrow>
          if 0 \<le> m \<and> m \<le> 500000
          then Inr (s\<lparr>car_data := (car_data s)\<lparr>mileage := Val m\<rparr>,
                      current_step := CONFIRMING_CAR_DATA,
                      last_response := ConfirmCarData ((car_data s)\<lparr>mileage := Val m\<rparr>)\<rparr>)
          else Inr (s\<lparr>last_response := InvalidMileage\<rparr>)
      | None \<Rightarrow> Inr (s\<lparr>last_response := InvalidMileage\<rparr>))"
  unfolding collect_car_data_node_def Let_def
  by (simp add: assms last_user_input_human [OF assms(1)])

lemma collect_mileage_cases:
  assumes "messages s = ms @ [HumanMessage user_text]"
    and "truthy_str (dict_get (brand (car_data s))) \<noteq> None"
    and "truthy_str (dict_get (model (car_data s))) \<noteq> None"
    and "truthy_int (dict_get (year (car_data s))) \<noteq> None"
    and "truthy_int (dict_get (mileage (car_data s))) = None"
  shows "collect_car_data_node rt s =
     (case extract_mileage rt user_text of
        Some m \<Rightarrow>
          if m \<noteq> 0 \<and> 0 \<le> m \<and> m \<le> 500000
          then Inr (s\<lparr>car_data := (car_data s)\<lparr>mileage := Val m\<rparr>,
                      current_step := CONFIRMING_CAR_DATA,
                      last_response := ConfirmCarData ((car_data s)\<lparr>mileage := Val m\<rparr>)\<rparr>)
          else Inr (s\<lparr>last_response := InvalidMileage\<rparr>)
      | None \<Rightarrow> Inr (s\<lparr>last_response := InvalidMileage\<rparr>))"
  unfolding collect_mileage_branch [OF assms]
  by (cases "extract_mileage rt user_text") (simp_all add: truthy_int_def)
lemma extract_mileage_zero: "extract_mileage rt (str ''0'') = Some 0"
  by (simp add: extract_mileage_def re_search_def mileage_pattern_def replace_char_def str_def
      word_boundary_def is_word_def is_digit_def digit_value_def in_range_def int_of_digits_def)

text \<open>
  C2 at the user input \<open>0\<close>: the extractor yields the mileage 0, and the node answers
  that it did not understand the mileage, leaving the car data and the step as they
  were.
\<close>

theorem zero_mileage_rejected:
  "extract_mileage scripted_runtime (str ''0'') = Some 0
   \<and> collect_car_data_node scripted_runtime
       (conversation COLLECTING_CAR_DATA juan corolla_without_mileage ''0'') =
     Inr ((conversation COLLECTING_CAR_DATA juan corolla_without_mileage ''0'')
            \<lparr>last_response := InvalidMileage\<rparr>)"
proof -
  let ?s = "conversation COLLECTING_CAR_DATA juan corolla_without_mileage ''0''"
  have cd: "car_data ?s = corolla_without_mileage"
    by (simp add: conversation_def)
  have b: "truthy_str (dict_get (brand (car_data ?s))) \<noteq> None"
    and m: "truthy_str (dict_get (model (car_data ?s))) \<noteq> None"
    and y: "truthy_int (dict_get (year (car_data ?s))) \<noteq> None"
    and k: "truthy_int (dict_get (mileage (car_data ?s))) = None"
    unfolding cd
    by (simp_all add: corolla_without_mileage_def corolla_def dict_get_def truthy_str_def
        truthy_int_def str_def)
  from collect_mileage_cases [OF conversation_messages b m y k, of scripted_runtime]
  show ?thesis by (simp add: extract_mileage_zero)
qed

section \<open>Collecting the personal data\<close>

text \<open>
  \<open>_collect_personal_data_node\<close> by the first missing field. The response differs from
  branch to branch and is left open here.
\<close>

lemma accepted_full_name_words:
  assumes "accepted_full_name rt u = Some n"
  shows "\<exists>w ws. split n = w # ws"
proof -
  from assms have "2 \<le> length (split n)"
    by (auto simp: accepted_full_name_def extract_full_name_def truthy_str_def
        split: prod.splits option.splits if_splits)
  then show ?thesis by (cases "split n") auto
qed

lemma collect_name_branch:
  assumes "messages s = ms @ [HumanMessage u]"
    and "missing_str (full_name (personal_data s))"
  shows "\<exists>r. collect_personal_data_node rt s =
     Inr (case accepted_full_name rt u of
            Some n \<Rightarrow> s\<lparr>personal_data := (personal_data s)\<lparr>full_name := Val n\<rparr>,
                        last_response := r\<rparr>
          | None \<Rightarrow> s\<lparr>last_response := r\<rparr>)"
proof -
  obtain name err where x: "extract_full_name rt u = (name, err)"
    by (cases "extract_full_name rt u")
  have m: "truthy_str (dict_get (full_name (personal_data s))) = None"
    using assms(2) by (simp add: missing_str_def)
  have node: "collect_personal_data_node rt s =
      (case truthy_str err of
         Some e \<Rightarrow> Inr (s\<lparr>last_response := Text e\<rparr>)
       | None \<Rightarrow>
          (case truthy_str name of
             Some n \<Rightarrow>
               (case split n of
                  [] \<Rightarrow> Inl IndexError
                | w # _ \<Rightarrow>
                    Inr (s\<lparr>personal_data := (personal_data s)\<lparr>full_name := Val n\<rparr>,
                           last_response := AskBirthYear (Some w)\<rparr>))
           | None \<Rightarrow> Inr (s\<lparr>last_response := InvalidName\<rparr>)))"
    unfolding collect_personal_data_node_def Let_def
    by (simp add: assms(1) m x last_user_input_human [OF assms(1)])
  have acc: "accepted_full_name rt u =
      (case truthy_str err of Some e \<Rightarrow> None | None \<Rightarrow> truthy_str name)"
    by (simp add: accepted_full_name_def x)
  show ?thesis
  proof (cases "truthy_str err")
    case (Some e)
    then show ?thesis by (auto simp: node acc)
  next
    case None
    note e = None
    show ?thesis
    proof (cases "truthy_str name")
      case None
      with e show ?thesis by (auto simp: node acc)
    next
      case (Some n)
      with e have "accepted_full_name rt u = Some n" by (simp add: acc)
      from accepted_full_name_words [OF this] obtain w ws where "split n = w # ws" by blast
      with e Some show ?thesis by (auto simp: node acc)
    qed
  qed
qed

lemma collect_birth_year_branch:
  assumes "messages s = ms @ [HumanMessage u]"
    and "\<not> missing_str (full_name (personal_data s))"
    and "missing_int (birth_year (personal_data s))"
  shows "\<exists>r. collect_personal_data_node rt s =
     Inr (case accepted_birth_year rt u of
            Some y \<Rightarrow> s\<lparr>personal_data := (personal_data s)\<lparr>birth_year := Val y\<rparr>,
                        last_response := r\<rparr>
          | None \<Rightarrow> s\<lparr>last_response := r\<rparr>)"
proof -
  have m: "truthy_str (dict_get (full_name (personal_data s))) \<noteq> None"
    "truthy_int (dict_get (birth_year (personal_data s))) = None"
    using assms(2,3) by (simp_all add: missing_str_def missing_int_def)
  show ?thesis
    unfolding collect_personal_data_node_def Let_def accepted_birth_year_def
    by (auto simp: assms(1) m last_user_input_human [OF assms(1)] split: option.splits)
qed

lemma collect_email_branch:
  assumes "messages s = ms @ [HumanMessage u]"
    and "\<not> missing_str (full_name (personal_data s))"
    and "\<not> missing_int (birth_year (personal_data s))"
    and "missing_str (email (personal_data s))"
  shows "\<exists>r. collect_personal_data_node rt s =
     Inr (case accepted_email rt u of
            Some e \<Rightarrow> s\<lparr>personal_data := (personal_data s)\<lparr>email := Val e\<rparr>,
                        current_step := CONFIRMING_PERSONAL_DATA,
                        last_response := r\<rparr>
          | None \<Rightarrow> s\<lparr>last_response := r\<rparr>)"
proof -
  have m: "truthy_str (dict_get (full_name (personal_data s))) \<noteq> None"
    "truthy_int (dict_get (birth_year (personal_data s))) \<noteq> None"
    "truthy_str (dict_get (email (personal_data s))) = None"
    using assms(2,3,4) by (simp_all add: missing_str_def missing_int_def)
  show ?thesis
    unfolding collect_personal_data_node_def Let_def accepted_email_def
    by (auto simp: assms(1) m last_user_input_human [OF assms(1)] split: option.splits)
qed

lemma collect_nothing_missing:
  assumes "messages s = ms @ [HumanMessage u]"
    and "\<not> missing_str (full_name (personal_data s))"
    and "\<not> missing_int (birth_year (personal_data s))"
    and "\<not> missing_str (email (personal_data s))"
  shows "collect_personal_data_node rt s = Inr s"
proof -
  have m: "truthy_str (dict_get (full_name (personal_data s))) \<noteq> None"
    "truthy_int (dict_get (birth_year (personal_data s))) \<noteq> None"
    "truthy_str (dict_get (email (personal_data s))) \<noteq> None"
    using assms(2,3,4) by (simp_all add: missing_str_def missing_int_def)
  show ?thesis
    unfolding collect_personal_data_node_def Let_def
    by (simp add: assms(1) m)
qed

lemma accepted_name_juan:
  "accepted_full_name scripted_runtime (str ''Juan Perez'') = Some (str ''Juan Perez'')"
  by (simp add: accepted_full_name_def extract_full_name_def validate_input_safety_def
      extract_with_llm_def scripted_runtime_def scripted_llm_def ascii_upper_def strip_def
      split_def truthy_str_def is_space_def startswith_def in_range_def str_def)

lemma accepted_year_1850:
  "accepted_birth_year scripted_runtime (str ''1850'') = None"
  by (simp add: accepted_birth_year_def extract_year_def re_search_def year_pattern_def
      scripted_runtime_def word_boundary_def is_word_def is_digit_def digit_value_def
      in_range_def truthy_int_def str_def)

lemma accepted_email_juan:
  "accepted_email scripted_runtime (str ''juan@x.com'') = Some (str ''juan@x.com'')"
  by (simp add: accepted_email_def extract_email_def re_search_def email_pattern_def
      scripted_runtime_def word_boundary_def is_word_def is_digit_def digit_value_def
      in_range_def one_of_def truthy_str_def str_def)

text \<open>
  C6. In step \<open>COLLECTING_PERSONAL_DATA\<close> a turn returns a record that differs from
  the given one in \<open>personal_data\<close>, \<open>current_step\<close> and \<open>last_response\<close> at most. The
  fields are examined in the order full name, birth year, email, and only the first
  missing one is extracted: when the extraction succeeds exactly that field is stored
  and the others are kept; when it fails the personal data are unchanged. The step
  becomes \<open>CONFIRMING_PERSONAL_DATA\<close> exactly when the email is the field just filled, and
  stays otherwise. At most one field changes in a turn, and a field that is set is never
  overwritten. A field is missing when the node's test \<open>not personal_data.get(k)\<close> holds.
\<close>

theorem personal_fields_filled_in_order:
  assumes "current_step s = COLLECTING_PERSONAL_DATA"
    and "messages s = ms @ [HumanMessage user_text]"
  shows "\<exists>s'. invoke rt s = Inr s'
     \<and> s' = s\<lparr>personal_data := personal_data s', current_step := current_step s',
              last_response := last_response s'\<rparr>
     \<and> (missing_str (full_name (personal_data s)) \<longrightarrow>
          (case accepted_full_name rt user_text of
             Some n \<Rightarrow> personal_data s' = (personal_data s)\<lparr>full_name := Val n\<rparr>
           | None \<Rightarrow> personal_data s' = personal_data s)
          \<and> current_step s' = COLLECTING_PERSONAL_DATA)
     \<and> (\<not> missing_str (full_name (personal_data s))
          \<and> missing_int (birth_year (personal_data s)) \<longrightarrow>
          (case accepted_birth_year rt user_text of
             Some y \<Rightarrow> personal_data s' = (personal_data s)\<lparr>birth_year := Val y\<rparr>
           | None \<Rightarrow> personal_data s' = personal_data s)
          \<and> current_step s' = COLLECTING_PERSONAL_DATA)
     \<and> (\<not> missing_str (full_name (personal_data s))
          \<and> \<not> missing_int (birth_year (personal_data s))
          \<and> missing_str (email (personal_data s)) \<longrightarrow>
          (case accepted_email rt user_text of
             Some e \<Rightarrow> personal_data s' = (personal_data s)\<lparr>email := Val e\<rparr>
                       \<and> current_step s' = CONFIRMING_PERSONAL_DATA
           | None \<Rightarrow> personal_data s' = personal_data s
                     \<and> current_step s' = COLLECTING_PERSONAL_DATA))
     \<and> (\<not> missing_str (full_name (personal_data s))
          \<and> \<not> missing_int (birth_year (personal_data s))
          \<and> \<not> missing_str (email (personal_data s)) \<longrightarrow> s' = s)
     \<and> (current_step s' = CONFIRMING_PERSONAL_DATA) =
         (\<not> missing_str (full_name (personal_data s))
          \<and> \<not> missing_int (birth_year (personal_data s))
          \<and> missing_str (email (personal_data s))
          \<and> accepted_email rt user_text \<noteq> None)
     \<and> changed_fields (personal_data s) (personal_data s') \<le> 1
     \<and> (\<not> missing_str (full_name (personal_data s)) \<longrightarrow>
          full_name (personal_data s') = full_name (personal_data s))
     \<and> (\<not> missing_int (birth_year (personal_data s)) \<longrightarrow>
          birth_year (personal_data s') = birth_year (personal_data s))
     \<and> (\<not> missing_str (email (personal_data s)) \<longrightarrow>
          email (personal_data s') = email (personal_data s))"
proof -
  have inv: "invoke rt s = collect_personal_data_node rt s"
    using assms(1) by (simp add: invoke_def)
  consider
      (name) "missing_str (full_name (personal_data s))"
    | (year) "\<not> missing_str (full_name (personal_data s))"
        "missing_int (birth_year (personal_data s))"
    | (email) "\<not> missing_str (full_name (personal_data s))"
        "\<not> missing_int (birth_year (personal_data s))"
        "missing_str (email (personal_data s))"
    | (none) "\<not> missing_str (full_name (personal_data s))"
        "\<not> missing_int (birth_year (personal_data s))"
        "\<not> missing_str (email (personal_data s))"
    by blast
  then show ?thesis
  proof cases
    case name
    from collect_name_branch [OF assms(2) name, of rt] obtain r where
      r: "collect_personal_data_node rt s =
        Inr (case accepted_full_name rt user_text of
              Some n \<Rightarrow> s\<lparr>personal_data := (personal_data s)\<lparr>full_name := Val n\<rparr>,
                          last_response := r\<rparr>
            | None \<Rightarrow> s\<lparr>last_response := r\<rparr>)"
      by blast
    show ?thesis
      using name assms(1)
      by (cases "accepted_full_name rt user_text") (simp_all add: inv r changed_fields_def)
  next
    case year
    from collect_birth_year_branch [OF assms(2) year, of rt] obtain r where
      r: "collect_personal_data_node rt s =
        Inr (case accepted_birth_year rt user_text of
              Some y \<Rightarrow> s\<lparr>personal_data := (personal_data s)\<lparr>birth_year := Val y\<rparr>,
                          last_response := r\<rparr>
            | None \<Rightarrow> s\<lparr>last_response := r\<rparr>)"
      by blast
    show ?thesis
      using year assms(1)
      by (cases "accepted_birth_year rt user_text") (simp_all add: inv r changed_fields_def)
  next
    case email
    from collect_email_branch [OF assms(2) email, of rt] obtain r where
      r: "collect_personal_data_node rt s =
        Inr (case accepted_email rt user_text of
              Some e \<Rightarrow> s\<lparr>personal_data := (personal_data s)\<lparr>email := Val e\<rparr>,
                          current_step := CONFIRMING_PERSONAL_DATA,
                          last_response := r\<rparr>
            | None \<Rightarrow> s\<lparr>last_response := r\<rparr>)"
      by blast
    show ?thesis
      using email assms(1)
      by (cases "accepted_email rt user_text") (simp_all add: inv r changed_fields_def)
  next
    case none
    show ?thesis
      using none assms(1)
      by (simp add: inv collect_nothing_missing [OF assms(2) none] changed_fields_def)
  qed
qed

theorem personal_fields_filled_in_order_witness:
  "(\<exists>s'. invoke scripted_runtime
            (conversation COLLECTING_PERSONAL_DATA unset_personal unset_car ''Juan Perez'') = Inr s'
      \<and> personal_data s' = unset_personal\<lparr>full_name := Val (str ''Juan Perez'')\<rparr>
      \<and> current_step s' = COLLECTING_PERSONAL_DATA)
   \<and> (\<exists>s'. invoke scripted_runtime
            (conversation COLLECTING_PERSONAL_DATA (juan\<lparr>email := PyNone\<rparr>) unset_car
               ''juan@x.com'') = Inr s'
      \<and> personal_data s' = juan
      \<and> current_step s' = CONFIRMING_PERSONAL_DATA)
   \<and> (\<exists>s'. invoke scripted_runtime
            (conversation COLLECTING_PERSONAL_DATA (juan\<lparr>birth_year := PyNone\<rparr>) unset_car
               ''1850'') = Inr s'
      \<and> personal_data s' = juan\<lparr>birth_year := PyNone\<rparr>
      \<and> current_step s' = COLLECTING_PERSONAL_DATA)"
proof (intro conjI)
  let ?s = "conversation COLLECTING_PERSONAL_DATA unset_personal unset_car ''Juan Perez''"
  have st: "current_step ?s = COLLECTING_PERSONAL_DATA" by (simp add: conversation_def)
  have m: "missing_str (full_name (personal_data ?s))"
    by (simp add: missing_str_def unset_personal_def dict_get_def truthy_str_def)
  from personal_fields_filled_in_order [OF st conversation_messages, of scripted_runtime] m
  show "\<exists>s'. invoke scripted_runtime ?s = Inr s'
      \<and> personal_data s' = unset_personal\<lparr>full_name := Val (str ''Juan Perez'')\<rparr>
      \<and> current_step s' = COLLECTING_PERSONAL_DATA"
    by (auto simp: accepted_name_juan)
next
  let ?s = "conversation COLLECTING_PERSONAL_DATA (juan\<lparr>email := PyNone\<rparr>) unset_car
               ''juan@x.com''"
  have st: "current_step ?s = COLLECTING_PERSONAL_DATA" by (simp add: conversation_def)
  have m: "\<not> missing_str (full_name (personal_data ?s))"
    "\<not> missing_int (birth_year (personal_data ?s))"
    "missing_str (email (personal_data ?s))"
    by (simp_all add: missing_str_def missing_int_def juan_def dict_get_def truthy_str_def
        truthy_int_def str_def)
  have j: "juan\<lparr>email := PyNone, email := Val (str ''juan@x.com'')\<rparr> = juan"
    by (simp add: juan_def)
  from personal_fields_filled_in_order [OF st conversation_messages, of scripted_runtime] m
  show "\<exists>s'. invoke scripted_runtime ?s = Inr s'
      \<and> personal_data s' = juan
      \<and> current_step s' = CONFIRMING_PERSONAL_DATA"
    by (auto simp: accepted_email_juan j)
next
  let ?s = "conversation COLLECTING_PERSONAL_DATA (juan\<lparr>birth_year := PyNone\<rparr>) unset_car
               ''1850''"
  have st: "current_step ?s = COLLECTING_PERSONAL_DATA" by (simp add: conversation_def)
  have m: "\<not> missing_str (full_name (personal_data ?s))"
    "missing_int (birth_year (personal_data ?s))"
    by (simp_all add: missing_str_def missing_int_def juan_def dict_get_def truthy_str_def
        truthy_int_def str_def)
  from personal_fields_filled_in_order [OF st conversation_messages, of scripted_runtime] m
  show "\<exists>s'. invoke scripted_runtime ?s = Inr s'
      \<and> personal_data s' = juan\<lparr>birth_year := PyNone\<rparr>
      \<and> current_step s' = COLLECTING_PERSONAL_DATA"
    by (auto simp: accepted_year_1850)
qed

end
